theory Spec2Isabelle
  imports Main
begin

section \<open>Data model\<close>

text \<open>
  The authentication service of \<^verbatim>\<open>api/src/services/authentication.ts\<close>
  works on four tables of the record store (users, roles, sessions, shares), on the
  process-wide login-attempt limiter and on a handful of collaborators that it only
  calls through their interfaces. Tables are lists of rows, in storage order, so that
  \<^verbatim>\<open>.first()\<close> has a meaning; a nullable column is an \<open>option\<close>.
  Timestamps are milliseconds as integers.
\<close>

type_synonym ident = string
type_synonym timestamp = int
type_synonym payload = "(string \<times> string) list"

datatype error =
    InvalidCredentialsException
  | UserSuspendedException
  | InvalidOTPException string
  | InvalidConfigException string
  | OtherException string

record directus_user =
  u_id :: ident
  u_first_name :: "string option"
  u_last_name :: "string option"
  u_email :: "string option"
  u_password :: "string option"
  u_status :: string
  u_role :: "ident option"
  u_tfa_secret :: "string option"
  u_provider :: string
  u_external_identifier :: "string option"
  u_auth_data :: "string option"
  u_last_access :: "timestamp option"

record directus_role =
  r_id :: ident
  r_admin_access :: bool
  r_app_access :: bool

record directus_session =
  s_token :: string
  s_user :: "ident option"
  s_share :: "ident option"
  s_expires :: timestamp
  s_ip :: "string option"
  s_user_agent :: "string option"

record directus_share =
  d_id :: ident
  d_item :: string
  d_collection :: string
  d_role :: "ident option"
  d_date_expired :: "timestamp option"
  d_times_used :: int
  d_max_uses :: "int option"

record directus_activity =
  a_action :: string
  a_user :: ident
  a_ip :: "string option"
  a_user_agent :: "string option"
  a_collection :: string
  a_item :: ident

text \<open>
  The user object that the service hands to a provider (type \<^verbatim>\<open>User\<close>, with the
  role flags and the second-factor secret that \<^verbatim>\<open>login\<close> selects in addition).
  A property that a query does not select is \<open>None\<close>.
\<close>

record User =
  user_id :: ident
  first_name :: "string option"
  last_name :: "string option"
  email :: "string option"
  password :: "string option"
  status :: string
  role :: "ident option"
  admin_access :: "bool option"
  app_access :: "bool option"
  tfa_secret :: "string option"
  provider :: string
  external_identifier :: "string option"
  auth_data :: "string option"

record DirectusTokenPayload =
  tp_id :: "ident option"
  tp_role :: "ident option"
  tp_app_access :: "bool option"
  tp_admin_access :: "bool option"
  tp_share_scope :: "(string \<times> string) option"

text \<open>The claims handed to the signer: the token payload as the \<^verbatim>\<open>auth.jwt\<close>
  filter returned it, with whatever custom claims the filter added.\<close>

type_synonym claims = "DirectusTokenPayload \<times> (string \<times> string) list"

record LoginResult =
  accessToken :: string
  refreshToken :: string
  expires :: int
  userId :: "ident option"

record Accountability =
  acc_ip :: "string option"
  acc_userAgent :: "string option"

text \<open>The second argument of \<^verbatim>\<open>emitFilter\<close>: status, user, provider and, for the
  \<^verbatim>\<open>auth.jwt\<close> event, the type of the request.\<close>

record hook_meta =
  meta_status :: string
  meta_user :: "ident option"
  meta_provider :: "string option"
  meta_type :: "string option"

subsection \<open>Collaborators\<close>

text \<open>
  A provider (\<^verbatim>\<open>AuthDriver\<close>) is known to the service by its methods only. Each may
  throw, so each returns a sum with the thrown value on the left.
\<close>

record auth_driver =
  getUserID :: "payload \<Rightarrow> error + ident"
  driver_login :: "User \<Rightarrow> payload \<Rightarrow> error + unit"
  driver_refresh :: "User \<Rightarrow> error + unit"
  driver_logout :: "User \<Rightarrow> error + unit"

text \<open>
  Everything else the service reaches through an import or through \<^verbatim>\<open>this\<close>:
  the provider registry, the hook dispatcher, the settings singleton, the second-factor
  service, the signer, and the two token lifetimes of the environment
  (\<^verbatim>\<open>ms(env.ACCESS_TOKEN_TTL)\<close>, \<^verbatim>\<open>ms(env.REFRESH_TOKEN_TTL)\<close>), already in
  milliseconds.
\<close>

record env =
  getAuthProvider :: "string \<Rightarrow> error + auth_driver"
  emitFilter_auth_login :: "payload \<Rightarrow> hook_meta \<Rightarrow> error + payload"
  emitFilter_auth_jwt :: "DirectusTokenPayload \<Rightarrow> hook_meta \<Rightarrow> error + claims"
  readSingleton_auth_login_attempts :: "error + int option"
  verifyOTP :: "ident \<Rightarrow> string \<Rightarrow> error + bool"
  jwt_sign :: "claims \<Rightarrow> error + string"
  ACCESS_TOKEN_TTL :: int
  REFRESH_TOKEN_TTL :: int
  accountability :: "Accountability option"

text \<open>
  What one call reads from the outside world while it runs: the start time of
  \<^verbatim>\<open>performance.now()\<close>, the string \<^verbatim>\<open>nanoid(64)\<close> returns, and the clock at
  each place the source reads it (the database's \<^verbatim>\<open>now()\<close> of the session query,
  \<^verbatim>\<open>Date.now()\<close> when the refresh token is issued, \<^verbatim>\<open>new Date()\<close> of the expiry
  sweep and of the last-access update).
\<close>

record readings =
  timeStart :: int
  nanoid :: string
  knex_now :: timestamp
  issue_now :: timestamp
  sweep_now :: timestamp
  access_now :: timestamp

subsection \<open>Observable effects and the state\<close>

text \<open>
  The effects of \<^verbatim>\<open>login\<close> that leave no trace in the store are kept in a log, in the
  order in which they happen: a call of \<^verbatim>\<open>stall\<close> with its two arguments, an
  \<^verbatim>\<open>auth.login\<close> action event with its status, user, provider and payload, and a
  call of the provider's credential check with its two arguments.
\<close>

datatype event =
    Stall int int
  | EmitAction_auth_login string "ident option" string payload
  | ProviderLogin User payload

text \<open>
  Modelled from the spec: the rate limiter of \<^verbatim>\<open>../rate-limiter\<close>, whose code is not
  part of the sources. It keeps a consumed-point counter per key and a points budget;
  the service creates it with \<^verbatim>\<open>duration: 0\<close>, so counters never expire.
\<close>

record limiter =
  points :: int
  consumed :: "ident \<rightharpoonup> int"

record world =
  directus_users :: "directus_user list"
  directus_roles :: "directus_role list"
  directus_sessions :: "directus_session list"
  directus_shares :: "directus_share list"
  directus_activity :: "directus_activity list"
  loginAttemptsLimiter :: limiter
  events :: "event list"

section \<open>Helpers of the embedding\<close>

text \<open>JavaScript truthiness of a possibly missing string: neither
  \<^verbatim>\<open>undefined\<close>/\<^verbatim>\<open>null\<close> nor the empty string.\<close>

definition truthy :: "string option \<Rightarrow> bool" where
  "truthy x = (case x of None \<Rightarrow> False | Some s \<Rightarrow> s \<noteq> [])"

text \<open>\<^verbatim>\<open>.first()\<close>: the first row of a result, or nothing.\<close>

definition first :: "'a list \<Rightarrow> 'a option" where
  "first rows = (case rows of [] \<Rightarrow> None | x # _ \<Rightarrow> Some x)"

text \<open>The right side of a left join: the matching rows, or one all-null row.\<close>

definition left_join :: "'a list \<Rightarrow> 'a option list" where
  "left_join rows = (if rows = [] then [None] else map Some rows)"

definition emit :: "event \<Rightarrow> world \<Rightarrow> world" where
  "emit e w = w\<lparr>events := events w @ [e]\<rparr>"

text \<open>
  Modelled from the spec: the timing normalizer \<^verbatim>\<open>stall\<close> of \<^verbatim>\<open>../utils/stall\<close>,
  whose code is not part of the sources. It waits until the floor has passed since the
  start; the embedding records that it ran, with its two arguments.
\<close>

definition stall :: "int \<Rightarrow> int \<Rightarrow> world \<Rightarrow> world" where
  "stall ms start w = emit (Stall ms start) w"

definition STALL_TIME :: int where
  "STALL_TIME = 100"

text \<open>
  Modelled from the spec: \<^verbatim>\<open>consume\<close> and \<^verbatim>\<open>set\<close> of the rate limiter.
  \<^verbatim>\<open>consume\<close> adds one point to the key's counter and is rejected once the counter
  exceeds the budget; the first component tells whether it was accepted.
\<close>

definition consume :: "ident \<Rightarrow> limiter \<Rightarrow> bool \<times> limiter" where
  "consume key l =
     (let c = (case consumed l key of None \<Rightarrow> 0 | Some n \<Rightarrow> n) + 1
      in (c \<le> points l, l\<lparr>consumed := (consumed l)(key \<mapsto> c)\<rparr>))"

definition limiter_set :: "ident \<Rightarrow> int \<Rightarrow> limiter \<Rightarrow> limiter" where
  "limiter_set key n l = l\<lparr>consumed := (consumed l)(key \<mapsto> n)\<rparr>"

section \<open>login\<close>

text \<open>
  The user query of \<^verbatim>\<open>login\<close> (lines 61--81): users inner-joined with roles on
  \<^verbatim>\<open>u.role = r.id\<close>, restricted to the identifier the provider derived and to the
  provider name, first row. \<open>select_user\<close> is the select list.
\<close>

definition select_user :: "directus_user \<Rightarrow> directus_role \<Rightarrow> User" where
  "select_user u r =
     \<lparr>user_id = u_id u, first_name = u_first_name u, last_name = u_last_name u,
      email = u_email u, password = u_password u, status = u_status u, role = u_role u,
      admin_access = Some (r_admin_access r), app_access = Some (r_app_access r),
      tfa_secret = u_tfa_secret u, provider = u_provider u,
      external_identifier = u_external_identifier u, auth_data = u_auth_data u\<rparr>"

definition login_select :: "world \<Rightarrow> ident \<Rightarrow> string \<Rightarrow> User option" where
  "login_select w uid providerName =
     first [select_user u r. u \<leftarrow> directus_users w, r \<leftarrow> directus_roles w,
            u_role u = Some (r_id r), u_id u = uid, u_provider u = providerName]"

text \<open>The closure \<^verbatim>\<open>emitStatus\<close> (lines 98--113): a fire-and-forget action event.\<close>

definition emitStatus :: "payload \<Rightarrow> ident option \<Rightarrow> string \<Rightarrow> string \<Rightarrow> world \<Rightarrow> world" where
  "emitStatus updatedPayload user providerName st w =
     emit (EmitAction_auth_login st user providerName updatedPayload) w"

text \<open>Lines 115--125, the body of \<^verbatim>\<open>if (user?.status !== 'active')\<close>.\<close>

definition login_inactive ::
  "readings \<Rightarrow> world \<Rightarrow> string \<Rightarrow> payload \<Rightarrow> User option \<Rightarrow> (error + LoginResult) \<times> world" where
  "login_inactive rd w providerName updatedPayload user =
     (let w1 = emitStatus updatedPayload (map_option user_id user) providerName ''fail'' w
      in if map_option status user = Some ''suspended''
         then (Inl UserSuspendedException, stall STALL_TIME (timeStart rd) w1)
         else (Inl InvalidCredentialsException, stall STALL_TIME (timeStart rd) w1))"

text \<open>
  Lines 136--148: with a budget configured, one point is consumed for the user; when the
  limiter rejects, the user's row and the local \<^verbatim>\<open>user\<close> object are set to
  \<^verbatim>\<open>suspended\<close> and the counter is set to zero. Control then continues after the
  \<^verbatim>\<open>if\<close> in either case.
\<close>

definition suspend_user :: "ident \<Rightarrow> directus_user list \<Rightarrow> directus_user list" where
  "suspend_user uid us = map (\<lambda>u. if u_id u = uid then u\<lparr>u_status := ''suspended''\<rparr> else u) us"

definition login_attempts :: "int option \<Rightarrow> User \<Rightarrow> world \<Rightarrow> User \<times> world" where
  "login_attempts allowedAttempts user w =
     (case allowedAttempts of
        None \<Rightarrow> (user, w)
      | Some n \<Rightarrow>
          (let (accepted, l) = consume (user_id user) ((loginAttemptsLimiter w)\<lparr>points := n\<rparr>)
           in if accepted then (user, w\<lparr>loginAttemptsLimiter := l\<rparr>)
              else (user\<lparr>status := ''suspended''\<rparr>,
                    w\<lparr>directus_users := suspend_user (user_id user) (directus_users w),
                      loginAttemptsLimiter := limiter_set (user_id user) 0 l\<rparr>)))"

text \<open>The two messages of \<^verbatim>\<open>InvalidOTPException\<close>; character 0x22 is the double quote.\<close>

definition otp_is_required :: string where
  "otp_is_required = CHR 0x22 # ''otp'' @ CHR 0x22 # '' is required''"

definition otp_is_invalid :: string where
  "otp_is_invalid = CHR 0x22 # ''otp'' @ CHR 0x22 # '' is invalid''"

text \<open>
  Lines 175--242: the token payload, the \<^verbatim>\<open>auth.jwt\<close> filter, the signer, the new
  session row, the sweep of expired sessions, the activity record (with an
  accountability only), the last-access update, the success event, the counter reset
  (with a budget only), the stall and the result.
\<close>

definition insert_session :: "directus_session \<Rightarrow> world \<Rightarrow> world" where
  "insert_session s w = w\<lparr>directus_sessions := directus_sessions w @ [s]\<rparr>"

definition delete_expired :: "timestamp \<Rightarrow> world \<Rightarrow> world" where
  "delete_expired now w =
     w\<lparr>directus_sessions := filter (\<lambda>s. \<not> s_expires s < now) (directus_sessions w)\<rparr>"

definition createOne_login :: "Accountability option \<Rightarrow> ident \<Rightarrow> world \<Rightarrow> world" where
  "createOne_login acc uid w =
     (case acc of
        None \<Rightarrow> w
      | Some a \<Rightarrow> w\<lparr>directus_activity := directus_activity w @
          [\<lparr>a_action = ''login'', a_user = uid, a_ip = acc_ip a, a_user_agent = acc_userAgent a,
            a_collection = ''directus_users'', a_item = uid\<rparr>]\<rparr>)"

definition update_last_access :: "ident \<Rightarrow> timestamp \<Rightarrow> world \<Rightarrow> world" where
  "update_last_access uid now w =
     w\<lparr>directus_users :=
         map (\<lambda>u. if u_id u = uid then u\<lparr>u_last_access := Some now\<rparr> else u) (directus_users w)\<rparr>"

definition reset_attempts :: "int option \<Rightarrow> ident \<Rightarrow> world \<Rightarrow> world" where
  "reset_attempts allowedAttempts uid w =
     (case allowedAttempts of
        None \<Rightarrow> w
      | Some _ \<Rightarrow> w\<lparr>loginAttemptsLimiter := limiter_set uid 0 (loginAttemptsLimiter w)\<rparr>)"

definition login_session :: "env \<Rightarrow> readings \<Rightarrow> User \<Rightarrow> directus_session" where
  "login_session env rd user =
     \<lparr>s_token = nanoid rd, s_user = Some (user_id user), s_share = None,
      s_expires = issue_now rd + REFRESH_TOKEN_TTL env,
      s_ip = (case accountability env of None \<Rightarrow> None | Some a \<Rightarrow> acc_ip a),
      s_user_agent = (case accountability env of None \<Rightarrow> None | Some a \<Rightarrow> acc_userAgent a)\<rparr>"

definition login_issue ::
  "env \<Rightarrow> readings \<Rightarrow> world \<Rightarrow> string \<Rightarrow> payload \<Rightarrow> int option \<Rightarrow> User
     \<Rightarrow> (error + LoginResult) \<times> world" where
  "login_issue env rd w providerName updatedPayload allowedAttempts user =
     (let tokenPayload = \<lparr>tp_id = Some (user_id user), tp_role = role user,
                           tp_app_access = app_access user, tp_admin_access = admin_access user,
                           tp_share_scope = None\<rparr>
      in case emitFilter_auth_jwt env tokenPayload
                \<lparr>meta_status = ''pending'', meta_user = Some (user_id user),
                 meta_provider = Some providerName, meta_type = Some ''login''\<rparr> of
           Inl e \<Rightarrow> (Inl e, w)
         | Inr customClaims \<Rightarrow>
             (case jwt_sign env customClaims of
                Inl e \<Rightarrow> (Inl e, w)
              | Inr token \<Rightarrow>
                  (let w1 = insert_session (login_session env rd user) w;
                       w2 = delete_expired (sweep_now rd) w1;
                       w3 = createOne_login (accountability env) (user_id user) w2;
                       w4 = update_last_access (user_id user) (access_now rd) w3;
                       w5 = emitStatus updatedPayload (Some (user_id user)) providerName ''success'' w4;
                       w6 = reset_attempts allowedAttempts (user_id user) w5;
                       w7 = stall STALL_TIME (timeStart rd) w6
                   in (Inr \<lparr>accessToken = token, refreshToken = nanoid rd,
                             expires = ACCESS_TOKEN_TTL env, userId = Some (user_id user)\<rparr>, w7))))"

text \<open>
  Lines 158--173, the second factor. An omitted \<^verbatim>\<open>otp\<close> is the empty string: the
  source only tests its truthiness before use.
\<close>

definition login_tfa ::
  "env \<Rightarrow> readings \<Rightarrow> world \<Rightarrow> string \<Rightarrow> payload \<Rightarrow> int option \<Rightarrow> User \<Rightarrow> string
     \<Rightarrow> (error + LoginResult) \<times> world" where
  "login_tfa env rd w providerName updatedPayload allowedAttempts user otp =
     (if truthy (tfa_secret user) \<and> otp = []
      then (Inl (InvalidOTPException otp_is_required),
            stall STALL_TIME (timeStart rd)
              (emitStatus updatedPayload (Some (user_id user)) providerName ''fail'' w))
      else if truthy (tfa_secret user) \<and> otp \<noteq> []
      then (case verifyOTP env (user_id user) otp of
              Inl e \<Rightarrow> (Inl e, w)
            | Inr otpValid \<Rightarrow>
                if otpValid = False
                then (Inl (InvalidOTPException otp_is_invalid),
                      stall STALL_TIME (timeStart rd)
                        (emitStatus updatedPayload (Some (user_id user)) providerName ''fail'' w))
                else login_issue env rd w providerName updatedPayload allowedAttempts user)
      else login_issue env rd w providerName updatedPayload allowedAttempts user)"

text \<open>Lines 127--156: the settings read, the attempt limiter and the provider's
  credential check, which receives the (possibly just suspended) user object.\<close>

definition login_active ::
  "env \<Rightarrow> readings \<Rightarrow> world \<Rightarrow> auth_driver \<Rightarrow> string \<Rightarrow> payload \<Rightarrow> User \<Rightarrow> string
     \<Rightarrow> (error + LoginResult) \<times> world" where
  "login_active env rd w drv providerName updatedPayload user0 otp =
     (case readSingleton_auth_login_attempts env of
        Inl e \<Rightarrow> (Inl e, w)
      | Inr allowedAttempts \<Rightarrow>
          (let (user, w1) = login_attempts allowedAttempts user0 w;
               w2 = emit (ProviderLogin user updatedPayload) w1
           in case driver_login drv user updatedPayload of
                Inl e \<Rightarrow>
                  (Inl e, stall STALL_TIME (timeStart rd)
                     (emitStatus updatedPayload (Some (user_id user)) providerName ''fail'' w2))
              | Inr _ \<Rightarrow> login_tfa env rd w2 providerName updatedPayload allowedAttempts user otp))"

text \<open>
  \<^verbatim>\<open>login\<close> (lines 51--243). The provider name is always passed; the default of the
  parameter, a constant of another file, is not modelled. Every \<^verbatim>\<open>await\<close> on a collaborator that
  throws leaves the function with that error at once; the source has no handler around
  any of them other than the two \<^verbatim>\<open>try\<close> blocks modelled above.
\<close>

definition login ::
  "env \<Rightarrow> readings \<Rightarrow> world \<Rightarrow> string \<Rightarrow> payload \<Rightarrow> string \<Rightarrow> (error + LoginResult) \<times> world" where
  "login env rd w providerName pl otp =
     (case getAuthProvider env providerName of
        Inl e \<Rightarrow> (Inl e, w)
      | Inr drv \<Rightarrow>
          (case getUserID drv pl of
             Inl e \<Rightarrow> (Inl e, w)
           | Inr uid \<Rightarrow>
               (let user = login_select w uid providerName
                in case emitFilter_auth_login env pl
                          \<lparr>meta_status = ''pending'', meta_user = map_option user_id user,
                           meta_provider = Some providerName, meta_type = None\<rparr> of
                     Inl e \<Rightarrow> (Inl e, w)
                   | Inr updatedPayload \<Rightarrow>
                       (case user of
                          None \<Rightarrow> login_inactive rd w providerName updatedPayload user
                        | Some u \<Rightarrow>
                            if status u \<noteq> ''active''
                            then login_inactive rd w providerName updatedPayload user
                            else login_active env rd w drv providerName updatedPayload u otp))))"

section \<open>refresh\<close>

text \<open>
  The session query of \<^verbatim>\<open>refresh\<close> (lines 250--281): sessions left-joined with users
  on \<^verbatim>\<open>s.user = u.id\<close>, with shares on \<^verbatim>\<open>s.share = d.id\<close> and with roles on
  \<^verbatim>\<open>r.id IN (u.role, d.role)\<close>, restricted to the token, to sessions that have not
  expired and to shares without an expiry date or with one that has not passed; first
  row. A joined row keeps the source rows it was built from; a side without a match is
  \<open>None\<close>, and every column selected from it is null.
\<close>

record refresh_row =
  row_s :: directus_session
  row_u :: "directus_user option"
  row_d :: "directus_share option"
  row_r :: "directus_role option"

definition role_matches :: "directus_role \<Rightarrow> directus_user option \<Rightarrow> directus_share option \<Rightarrow> bool" where
  "role_matches r u d =
     (Option.bind u u_role = Some (r_id r) \<or> Option.bind d d_role = Some (r_id r))"

definition share_unexpired :: "directus_share option \<Rightarrow> timestamp \<Rightarrow> bool" where
  "share_unexpired d now =
     (case Option.bind d d_date_expired of None \<Rightarrow> True | Some e \<Rightarrow> now \<le> e)"

definition refresh_rows :: "world \<Rightarrow> timestamp \<Rightarrow> string \<Rightarrow> refresh_row list" where
  "refresh_rows w now tok =
     [\<lparr>row_s = s, row_u = u, row_d = d, row_r = r\<rparr>.
        s \<leftarrow> directus_sessions w,
        u \<leftarrow> left_join [u \<leftarrow> directus_users w. s_user s = Some (u_id u)],
        d \<leftarrow> left_join [d \<leftarrow> directus_shares w. s_share s = Some (d_id d)],
        r \<leftarrow> left_join [r \<leftarrow> directus_roles w. role_matches r u d],
        s_token s = tok, now \<le> s_expires s, share_unexpired d now]"

definition refresh_select :: "world \<Rightarrow> timestamp \<Rightarrow> string \<Rightarrow> refresh_row option" where
  "refresh_select w now tok = first (refresh_rows w now tok)"

text \<open>
  The properties of \<^verbatim>\<open>record\<close> that the function reads, each by the alias of the
  select list: \<^verbatim>\<open>user_id: 'u.id'\<close>, \<^verbatim>\<open>role_id: 'r.id'\<close>,
  \<^verbatim>\<open>role_admin_access\<close>, \<^verbatim>\<open>role_app_access\<close>, \<^verbatim>\<open>share_id: 'd.id'\<close>,
  \<^verbatim>\<open>share_item: 'd.item'\<close>, \<^verbatim>\<open>share_collection: 'd.collection'\<close>.
\<close>

definition record_user_id :: "refresh_row \<Rightarrow> ident option" where
  "record_user_id rec = map_option u_id (row_u rec)"

definition record_user_provider :: "refresh_row \<Rightarrow> string option" where
  "record_user_provider rec = map_option u_provider (row_u rec)"

definition record_role_id :: "refresh_row \<Rightarrow> ident option" where
  "record_role_id rec = map_option r_id (row_r rec)"

definition record_role_app_access :: "refresh_row \<Rightarrow> bool option" where
  "record_role_app_access rec = map_option r_app_access (row_r rec)"

definition record_role_admin_access :: "refresh_row \<Rightarrow> bool option" where
  "record_role_admin_access rec = map_option r_admin_access (row_r rec)"

definition record_share_id :: "refresh_row \<Rightarrow> ident option" where
  "record_share_id rec = map_option d_id (row_d rec)"

definition record_share_item :: "refresh_row \<Rightarrow> string option" where
  "record_share_item rec = map_option d_item (row_d rec)"

definition record_share_collection :: "refresh_row \<Rightarrow> string option" where
  "record_share_collection rec = map_option d_collection (row_d rec)"

text \<open>
  Line 314 reads \<^verbatim>\<open>record.share_role\<close>. The select list (lines 251--271) has the
  aliases \<^verbatim>\<open>share_id\<close>, \<^verbatim>\<open>share_item\<close>, \<^verbatim>\<open>share_collection\<close>,
  \<^verbatim>\<open>share_expires\<close>, \<^verbatim>\<open>share_times_used\<close> and \<^verbatim>\<open>share_max_uses\<close> for the
  share and none named \<^verbatim>\<open>share_role\<close>, so the row object has no such property and
  the read gives \<^verbatim>\<open>undefined\<close>, whatever the share's role column holds.
\<close>

definition record_share_role :: "refresh_row \<Rightarrow> ident option" where
  "record_share_role rec = None"

text \<open>Lines 287--304: with a user (\<^verbatim>\<open>record.user_id\<close> truthy: a user was joined
  and its identifier is not the empty string), the provider of that user revalidates.\<close>

definition refresh_user :: "refresh_row \<Rightarrow> directus_user \<Rightarrow> User" where
  "refresh_user rec u =
     \<lparr>user_id = u_id u, first_name = u_first_name u, last_name = u_last_name u,
      email = u_email u, password = u_password u, status = u_status u,
      role = record_role_id rec, admin_access = record_role_admin_access rec,
      app_access = record_role_app_access rec, tfa_secret = None, provider = u_provider u,
      external_identifier = u_external_identifier u, auth_data = u_auth_data u\<rparr>"

definition refresh_provider :: "env \<Rightarrow> refresh_row \<Rightarrow> error + unit" where
  "refresh_provider env rec =
     (case row_u rec of
        None \<Rightarrow> Inr ()
      | Some u \<Rightarrow>
          if u_id u = [] then Inr ()
          else (case getAuthProvider env (u_provider u) of
                  Inl e \<Rightarrow> Inl e
                | Inr drv \<Rightarrow> driver_refresh drv (refresh_user rec u)))"

text \<open>Lines 306--319: the token payload, overridden for a share. \<^verbatim>\<open>record.share_id\<close>
  is truthy when a share was joined and its identifier is not the empty string; the
  scope is the pair of \<^verbatim>\<open>share_collection\<close> and \<^verbatim>\<open>share_item\<close>.\<close>

definition refresh_tokenPayload :: "refresh_row \<Rightarrow> DirectusTokenPayload" where
  "refresh_tokenPayload rec =
     (let tokenPayload = \<lparr>tp_id = record_user_id rec, tp_role = record_role_id rec,
                           tp_app_access = record_role_app_access rec,
                           tp_admin_access = record_role_admin_access rec,
                           tp_share_scope = None\<rparr>
      in case row_d rec of
           None \<Rightarrow> tokenPayload
         | Some d \<Rightarrow>
             if d_id d = [] then tokenPayload
             else tokenPayload\<lparr>tp_role := record_share_role rec,
                                tp_share_scope := Some (d_collection d, d_item d)\<rparr>)"

text \<open>Lines 345--354: the rotation of the session rows with the old token, and the
  last-access update for a user.\<close>

definition rotate_session :: "string \<Rightarrow> string \<Rightarrow> timestamp \<Rightarrow> world \<Rightarrow> world" where
  "rotate_session tok newRefreshToken refreshTokenExpiration w =
     w\<lparr>directus_sessions :=
         map (\<lambda>s. if s_token s = tok
                   then s\<lparr>s_token := newRefreshToken, s_expires := refreshTokenExpiration\<rparr>
                   else s) (directus_sessions w)\<rparr>"

definition refresh_last_access :: "refresh_row \<Rightarrow> timestamp \<Rightarrow> world \<Rightarrow> world" where
  "refresh_last_access rec now w =
     (case row_u rec of
        None \<Rightarrow> w
      | Some u \<Rightarrow> if u_id u = [] then w else update_last_access (u_id u) now w)"

definition refresh :: "env \<Rightarrow> readings \<Rightarrow> world \<Rightarrow> string \<Rightarrow> (error + LoginResult) \<times> world" where
  "refresh env rd w tok =
     (if tok = [] then (Inl InvalidCredentialsException, w)
      else case refresh_select w (knex_now rd) tok of
             None \<Rightarrow> (Inl InvalidCredentialsException, w)
           | Some rec \<Rightarrow>
               if \<not> truthy (record_share_id rec) \<and> \<not> truthy (record_user_id rec)
               then (Inl InvalidCredentialsException, w)
               else (case refresh_provider env rec of
                       Inl e \<Rightarrow> (Inl e, w)
                     | Inr _ \<Rightarrow>
                         (case emitFilter_auth_jwt env (refresh_tokenPayload rec)
                                 \<lparr>meta_status = ''pending'', meta_user = record_user_id rec,
                                  meta_provider = record_user_provider rec,
                                  meta_type = Some ''refresh''\<rparr> of
                            Inl e \<Rightarrow> (Inl e, w)
                          | Inr customClaims \<Rightarrow>
                              (case jwt_sign env customClaims of
                                 Inl e \<Rightarrow> (Inl e, w)
                               | Inr token \<Rightarrow>
                                   (let w1 = rotate_session tok (nanoid rd)
                                               (issue_now rd + REFRESH_TOKEN_TTL env) w;
                                        w2 = refresh_last_access rec (access_now rd) w1
                                    in (Inr \<lparr>accessToken = token, refreshToken = nanoid rd,
                                              expires = ACCESS_TOKEN_TTL env,
                                              userId = record_user_id rec\<rparr>, w2))))))"

section \<open>logout\<close>

text \<open>
  The query of \<^verbatim>\<open>logout\<close> (lines 365--381): sessions inner-joined with users on
  \<^verbatim>\<open>s.user = u.id\<close>, restricted to the token, first row; the select list has the
  user's columns only.
\<close>

definition logout_user :: "directus_user \<Rightarrow> User" where
  "logout_user u =
     \<lparr>user_id = u_id u, first_name = u_first_name u, last_name = u_last_name u,
      email = u_email u, password = u_password u, status = u_status u, role = u_role u,
      admin_access = None, app_access = None, tfa_secret = None, provider = u_provider u,
      external_identifier = u_external_identifier u, auth_data = u_auth_data u\<rparr>"

definition logout_select :: "world \<Rightarrow> string \<Rightarrow> User option" where
  "logout_select w tok =
     first [logout_user u. s \<leftarrow> directus_sessions w, u \<leftarrow> directus_users w,
            s_user s = Some (u_id u), s_token s = tok]"

definition delete_session :: "string \<Rightarrow> world \<Rightarrow> world" where
  "delete_session tok w =
     w\<lparr>directus_sessions := filter (\<lambda>s. s_token s \<noteq> tok) (directus_sessions w)\<rparr>"

definition logout :: "env \<Rightarrow> world \<Rightarrow> string \<Rightarrow> (error + unit) \<times> world" where
  "logout env w tok =
     (case logout_select w tok of
        None \<Rightarrow> (Inr (), w)
      | Some user \<Rightarrow>
          (case getAuthProvider env (provider user) of
             Inl e \<Rightarrow> (Inl e, w)
           | Inr drv \<Rightarrow>
               (case driver_logout drv user of
                  Inl e \<Rightarrow> (Inl e, w)
                | Inr _ \<Rightarrow> (Inr (), delete_session tok w))))"

section \<open>Vocabulary of the properties\<close>






text \<open>No identity for \<^verbatim>\<open>refresh\<close>: the token is empty, or the session query has no
  row, or its first row has neither a user nor a share.\<close>

definition no_identity :: "world \<Rightarrow> timestamp \<Rightarrow> string \<Rightarrow> bool" where
  "no_identity w now tok =
     (tok = [] \<or>
      (case refresh_select w now tok of
         None \<Rightarrow> True
       | Some rec \<Rightarrow> \<not> truthy (record_share_id rec) \<and> \<not> truthy (record_user_id rec)))"

text \<open>A session row with the token that has not expired and whose share, if it has
  one in the shares table, has no expiry date or one that has not passed: what the
  session query of \<^verbatim>\<open>refresh\<close> can see.\<close>

definition live_session :: "world \<Rightarrow> timestamp \<Rightarrow> string \<Rightarrow> bool" where
  "live_session w now tok =
     (\<exists>s \<in> set (directus_sessions w). s_token s = tok \<and> now \<le> s_expires s \<and>
        (\<exists>d \<in> set (left_join [d \<leftarrow> directus_shares w. s_share s = Some (d_id d)]).
           share_unexpired d now))"

text \<open>The collaborators \<^verbatim>\<open>refresh\<close> calls for a row return normally: the provider's
  hook (with its registry lookup), the \<^verbatim>\<open>auth.jwt\<close> filter and the signer.\<close>

definition refresh_collaborators_return :: "env \<Rightarrow> refresh_row \<Rightarrow> bool" where
  "refresh_collaborators_return env rec =
     (\<not> isl (refresh_provider env rec)
      \<and> (\<forall>tp m. \<not> isl (emitFilter_auth_jwt env tp m))
      \<and> (\<forall>c. \<not> isl (jwt_sign env c)))"

text \<open>A session row with the token that belongs to a user of the users table: what the
  inner join of \<^verbatim>\<open>logout\<close> can see.\<close>

definition user_session :: "world \<Rightarrow> string \<Rightarrow> bool" where
  "user_session w tok =
     (\<exists>s \<in> set (directus_sessions w). s_token s = tok \<and>
        (\<exists>u \<in> set (directus_users w). s_user s = Some (u_id u)))"

section \<open>Scenarios\<close>

text \<open>
  Concrete collaborators and stores on which the theorems below are instantiated: a
  provider that takes the identifier from the \<^verbatim>\<open>email\<close> entry of the payload and
  accepts the stored password, hooks that change nothing, a budget of three attempts, a
  signer whose token shows the role it was given, and a store with one active user.
\<close>

definition example_driver :: auth_driver where
  "example_driver =
     \<lparr>getUserID = (\<lambda>pl. case map_of pl ''email'' of
                            None \<Rightarrow> Inl InvalidCredentialsException
                          | Some e \<Rightarrow> Inr e),
      driver_login = (\<lambda>u pl. if password u \<noteq> None \<and> map_of pl ''password'' = password u
                              then Inr () else Inl InvalidCredentialsException),
      driver_refresh = (\<lambda>u. Inr ()),
      driver_logout = (\<lambda>u. Inr ())\<rparr>"

definition rejecting_driver :: auth_driver where
  "rejecting_driver = example_driver\<lparr>driver_refresh := (\<lambda>u. Inl InvalidCredentialsException)\<rparr>"

definition example_sign :: "claims \<Rightarrow> error + string" where
  "example_sign c =
     Inr (''jwt role='' @ (case tp_role (fst c) of None \<Rightarrow> ''undefined'' | Some r \<Rightarrow> r))"

definition example_env :: env where
  "example_env =
     \<lparr>getAuthProvider = (\<lambda>n. if n = ''default'' then Inr example_driver
                               else Inl (InvalidConfigException n)),
      emitFilter_auth_login = (\<lambda>pl m. Inr pl),
      emitFilter_auth_jwt = (\<lambda>tp m. Inr (tp, [])),
      readSingleton_auth_login_attempts = Inr (Some 3),
      verifyOTP = (\<lambda>uid code. Inr (code = ''123456'')),
      jwt_sign = example_sign,
      ACCESS_TOKEN_TTL = 900000,
      REFRESH_TOKEN_TTL = 604800000,
      accountability = None\<rparr>"

definition rejecting_env :: env where
  "rejecting_env = example_env\<lparr>getAuthProvider := (\<lambda>n. Inr rejecting_driver)\<rparr>"

definition example_user :: directus_user where
  "example_user =
     \<lparr>u_id = ''u1'', u_first_name = None, u_last_name = None, u_email = Some ''u1'',
      u_password = Some ''secret'', u_status = ''active'', u_role = Some ''r1'',
      u_tfa_secret = None, u_provider = ''default'', u_external_identifier = None,
      u_auth_data = None, u_last_access = None\<rparr>"

definition example_session :: directus_session where
  "example_session =
     \<lparr>s_token = ''tok0'', s_user = Some ''u1'', s_share = None, s_expires = 5000,
      s_ip = None, s_user_agent = None\<rparr>"

definition example_role :: directus_role where
  "example_role = \<lparr>r_id = ''r1'', r_admin_access = False, r_app_access = True\<rparr>"

definition example_world :: world where
  "example_world =
     \<lparr>directus_users = [example_user],
      directus_roles = [example_role,
                        \<lparr>r_id = ''r2'', r_admin_access = False, r_app_access = False\<rparr>],
      directus_sessions = [],
      directus_shares = [],
      directus_activity = [],
      loginAttemptsLimiter = \<lparr>points = 0, consumed = Map.empty\<rparr>,
      events = []\<rparr>"

definition session_world :: world where
  "session_world = example_world\<lparr>directus_sessions := [example_session]\<rparr>"

definition suspended_user :: directus_user where
  "suspended_user = example_user\<lparr>u_status := ''suspended''\<rparr>"

definition suspended_world :: world where
  "suspended_world = session_world\<lparr>directus_users := [suspended_user]\<rparr>"

text \<open>The row the session query of \<^verbatim>\<open>refresh\<close> finds in \<open>session_world\<close>.\<close>

definition example_row :: refresh_row where
  "example_row =
     \<lparr>row_s = example_session, row_u = Some example_user, row_d = None,
      row_r = Some example_role\<rparr>"

definition tfa_user :: directus_user where
  "tfa_user = example_user\<lparr>u_tfa_secret := Some ''JBSWY3DP''\<rparr>"

definition tfa_world :: world where
  "tfa_world = example_world\<lparr>directus_users := [tfa_user]\<rparr>"

definition example_share :: directus_share where
  "example_share =
     \<lparr>d_id = ''d1'', d_item = ''42'', d_collection = ''articles'', d_role = Some ''r2'',
      d_date_expired = None, d_times_used = 0, d_max_uses = None\<rparr>"

definition share_world :: world where
  "share_world =
     example_world\<lparr>directus_sessions :=
                      [\<lparr>s_token = ''share-tok'', s_user = None, s_share = Some ''d1'',
                        s_expires = 5000, s_ip = None, s_user_agent = None\<rparr>],
                    directus_shares := [example_share]\<rparr>"

definition example_rd :: readings where
  "example_rd =
     \<lparr>timeStart = 0, nanoid = ''tok1'', knex_now = 1000, issue_now = 1000,
      sweep_now = 1001, access_now = 1002\<rparr>"

definition good_payload :: payload where
  "good_payload = [(''email'', ''u1''), (''password'', ''secret'')]"

definition bad_payload :: payload where
  "bad_payload = [(''email'', ''u1''), (''password'', ''guess'')]"

text \<open>The stores after one, two and three logins with a wrong password in a row.\<close>

definition after_one_failure :: world where
  "after_one_failure =
     snd (login example_env example_rd example_world ''default'' bad_payload [])"

definition after_two_failures :: world where
  "after_two_failures =
     snd (login example_env example_rd after_one_failure ''default'' bad_payload [])"

definition after_three_failures :: world where
  "after_three_failures =
     snd (login example_env example_rd after_two_failures ''default'' bad_payload [])"

text \<open>An environment whose refresh tokens live for zero milliseconds, and one whose
  settings read throws.\<close>

definition zero_ttl_env :: env where
  "zero_ttl_env = example_env\<lparr>REFRESH_TOKEN_TTL := 0\<rparr>"


text \<open>An environment whose signer throws, and a store whose only user has a second
  factor and is suspended.\<close>

definition no_sign_env :: env where
  "no_sign_env = example_env\<lparr>jwt_sign := (\<lambda>c. Inl (OtherException ''sign''))\<rparr>"

definition suspended_tfa_world :: world where
  "suspended_tfa_world =
     example_world\<lparr>directus_users := [tfa_user\<lparr>u_status := ''suspended''\<rparr>]\<rparr>"

text \<open>What \<^verbatim>\<open>login\<close> returns in the example store for the right password.\<close>

definition example_result :: LoginResult where
  "example_result =
     \<lparr>accessToken = ''jwt role=r1'', refreshToken = ''tok1'', expires = 900000,
      userId = Some ''u1''\<rparr>"

section \<open>Basic lemmas\<close>

lemma first_eq_None [simp]: "first xs = None \<longleftrightarrow> xs = []"
  by (simp add: first_def split: list.split)

lemma first_SomeD: "first xs = Some x \<Longrightarrow> x \<in> set xs"
  by (auto simp: first_def split: list.splits)

lemma events_emit [simp]: "events (emit e w) = events w @ [e]"
  by (simp add: emit_def)

lemma events_stall [simp]: "events (stall ms start w) = events w @ [Stall ms start]"
  by (simp add: stall_def)

lemma events_emitStatus [simp]:
  "events (emitStatus p u n st w) = events w @ [EmitAction_auth_login st u n p]"
  by (simp add: emitStatus_def)

lemma events_insert_session [simp]: "events (insert_session s w) = events w"
  by (simp add: insert_session_def)

lemma events_delete_expired [simp]: "events (delete_expired now w) = events w"
  by (simp add: delete_expired_def)

lemma events_createOne_login [simp]: "events (createOne_login acc uid w) = events w"
  by (simp add: createOne_login_def split: option.split)

lemma events_update_last_access [simp]: "events (update_last_access uid now w) = events w"
  by (simp add: update_last_access_def)

lemma events_reset_attempts [simp]: "events (reset_attempts a uid w) = events w"
  by (simp add: reset_attempts_def split: option.split)

lemma events_login_attempts [simp]: "events (snd (login_attempts a u w)) = events w"
  by (simp add: login_attempts_def Let_def split: option.split prod.split)

lemma user_id_login_attempts [simp]: "user_id (fst (login_attempts a u w)) = user_id u"
  by (simp add: login_attempts_def Let_def split: option.split prod.split)

lemma tfa_secret_login_attempts [simp]: "tfa_secret (fst (login_attempts a u w)) = tfa_secret u"
  by (simp add: login_attempts_def Let_def split: option.split prod.split)

lemma sessions_login_attempts [simp]:
  "directus_sessions (snd (login_attempts a u w)) = directus_sessions w"
  by (simp add: login_attempts_def Let_def split: option.split prod.split)

lemma sessions_emit [simp]: "directus_sessions (emit e w) = directus_sessions w"
  by (simp add: emit_def)

section \<open>login: users that are absent or not active\<close>

text \<open>The user query finds nothing when no user has the identifier, or when the users
  that have it belong to another provider.\<close>

lemma login_select_absent:
  assumes "\<forall>u \<in> set (directus_users w). u_id u = uid \<longrightarrow> u_provider u \<noteq> providerName"
  shows "login_select w uid providerName = None"
  using assms by (auto simp: login_select_def)


text \<open>
  C7. When the provider is known, derives an identifier and the \<^verbatim>\<open>auth.login\<close>
  filter returns, and the user query finds no row (no such user, or a user of another
  provider) or a user whose status is not \<^verbatim>\<open>active\<close>, then \<^verbatim>\<open>login\<close> emits the
  failure event, stalls and throws \<^verbatim>\<open>UserSuspended\<close> if the status is
  \<^verbatim>\<open>suspended\<close> and \<^verbatim>\<open>InvalidCredentials\<close> in every other case. These two events
  are all it adds to the log and the store is otherwise unchanged: in particular the
  provider's credential check is not called.
\<close>

theorem login_inactive_user:
  assumes "getAuthProvider env providerName = Inr drv"
    and "getUserID drv pl = Inr uid"
    and "login_select w uid providerName = user"
    and "emitFilter_auth_login env pl
           \<lparr>meta_status = ''pending'', meta_user = map_option user_id user,
            meta_provider = Some providerName, meta_type = None\<rparr> = Inr updatedPayload"
    and "map_option status user \<noteq> Some ''active''"
  shows "login env rd w providerName pl otp =
           (Inl (if map_option status user = Some ''suspended''
                 then UserSuspendedException else InvalidCredentialsException),
            w\<lparr>events := events w @
                 [EmitAction_auth_login ''fail'' (map_option user_id user) providerName updatedPayload,
                  Stall 100 (timeStart rd)]\<rparr>)"
  using assms
  by (cases user)
     (simp_all add: login_def login_inactive_def Let_def emitStatus_def stall_def emit_def
        STALL_TIME_def)

theorem login_inactive_user_witness:
  "getAuthProvider example_env ''default'' = Inr example_driver
   \<and> getUserID example_driver good_payload = Inr ''u1''
   \<and> emitFilter_auth_login example_env good_payload
        \<lparr>meta_status = ''pending'',
         meta_user = map_option user_id (login_select suspended_world ''u1'' ''default''),
         meta_provider = Some ''default'', meta_type = None\<rparr> = Inr good_payload
   \<and> map_option status (login_select suspended_world ''u1'' ''default'') \<noteq> Some ''active''
   \<and> fst (login example_env example_rd suspended_world ''default'' good_payload []) =
        Inl UserSuspendedException
   \<and> events (snd (login example_env example_rd suspended_world ''default'' good_payload [])) =
        [EmitAction_auth_login ''fail'' (Some ''u1'') ''default'' good_payload, Stall 100 0]"
proof -
  have h1: "getAuthProvider example_env ''default'' = Inr example_driver"
    by (simp add: example_env_def)
  have h2: "getUserID example_driver good_payload = Inr ''u1''"
    by (simp add: example_driver_def good_payload_def)
  have h4: "emitFilter_auth_login example_env good_payload
        \<lparr>meta_status = ''pending'',
         meta_user = map_option user_id (login_select suspended_world ''u1'' ''default''),
         meta_provider = Some ''default'', meta_type = None\<rparr> = Inr good_payload"
    by (simp add: example_env_def)
  have st: "map_option status (login_select suspended_world ''u1'' ''default'') = Some ''suspended''"
    by code_simp
  have uid: "map_option user_id (login_select suspended_world ''u1'' ''default'') = Some ''u1''"
    by code_simp
  have h5: "map_option status (login_select suspended_world ''u1'' ''default'') \<noteq> Some ''active''"
    by (simp add: st)
  have ev: "events suspended_world = []"
    by (simp add: suspended_world_def session_world_def example_world_def)
  have rd: "timeStart example_rd = 0"
    by (simp add: example_rd_def)
  show ?thesis
    using login_inactive_user [OF h1 h2 refl h4 h5, of example_rd "[]"] h1 h2 h4 h5
    by (simp add: st uid ev rd)
qed

section \<open>login: the second factor\<close>

text \<open>
  C8, as the code has it. Take a login attempt that reaches the second-factor step:
  the user is found and active, the collaborators before that step return and the
  provider accepts the credentials. If the user has a second-factor secret, then
  without an OTP the call throws \<^verbatim>\<open>InvalidOTP\<close> with the message that the OTP is
  required; with an OTP that the verifier answers \<open>False\<close> to, it throws
  \<^verbatim>\<open>InvalidOTP\<close> with the message that the OTP is invalid; both paths emit the
  failure event and stall before they throw. With an OTP that the verifier answers
  \<open>True\<close> to, the call goes on to issue tokens, and the call succeeds only in that
  case. The two messages are written out in the statement, character 0x22 being the
  double quote around the word otp.
\<close>

theorem login_second_factor:
  assumes "getAuthProvider env providerName = Inr drv"
    and "getUserID drv pl = Inr uid"
    and "login_select w uid providerName = Some u"
    and "emitFilter_auth_login env pl
           \<lparr>meta_status = ''pending'', meta_user = Some (user_id u),
            meta_provider = Some providerName, meta_type = None\<rparr> = Inr updatedPayload"
    and "status u = ''active''"
    and "readSingleton_auth_login_attempts env = Inr allowed"
    and "login_attempts allowed u w = (user, w1)"
    and "driver_login drv user updatedPayload = Inr ()"
    and "truthy (tfa_secret u)"
  shows "(otp = [] \<longrightarrow>
            fst (login env rd w providerName pl otp) =
              Inl (InvalidOTPException (CHR 0x22 # ''otp'' @ CHR 0x22 # '' is required''))
          \<and> events (snd (login env rd w providerName pl otp)) = events w @
               [ProviderLogin user updatedPayload,
                EmitAction_auth_login ''fail'' (Some (user_id u)) providerName updatedPayload,
                Stall 100 (timeStart rd)])
       \<and> (otp \<noteq> [] \<and> verifyOTP env (user_id u) otp = Inr False \<longrightarrow>
            fst (login env rd w providerName pl otp) =
              Inl (InvalidOTPException (CHR 0x22 # ''otp'' @ CHR 0x22 # '' is invalid''))
          \<and> events (snd (login env rd w providerName pl otp)) = events w @
               [ProviderLogin user updatedPayload,
                EmitAction_auth_login ''fail'' (Some (user_id u)) providerName updatedPayload,
                Stall 100 (timeStart rd)])
       \<and> (otp \<noteq> [] \<and> verifyOTP env (user_id u) otp = Inr True \<longrightarrow>
            login env rd w providerName pl otp =
              login_issue env rd (emit (ProviderLogin user updatedPayload) w1)
                providerName updatedPayload allowed user)
       \<and> ((\<exists>r. fst (login env rd w providerName pl otp) = Inr r) \<longrightarrow>
            otp \<noteq> [] \<and> verifyOTP env (user_id u) otp = Inr True)"
proof -
  have u: "user_id user = user_id u" "tfa_secret user = tfa_secret u" "events w1 = events w"
    using assms(7) user_id_login_attempts [of allowed u w]
      tfa_secret_login_attempts [of allowed u w] events_login_attempts [of allowed u w]
    by simp_all
  have step: "login env rd w providerName pl otp =
      login_tfa env rd (emit (ProviderLogin user updatedPayload) w1) providerName updatedPayload
        allowed user otp"
    using assms by (simp add: login_def login_active_def Let_def)
  show ?thesis
    unfolding step using assms(9) u
    by (cases "verifyOTP env (user_id u) otp")
       (auto simp: login_tfa_def STALL_TIME_def otp_is_required_def otp_is_invalid_def)
qed

theorem login_second_factor_witness:
  "truthy (tfa_secret (select_user tfa_user example_role))
   \<and> driver_login example_driver
        (fst (login_attempts (Some 3) (select_user tfa_user example_role) tfa_world))
        good_payload = Inr ()
   \<and> fst (login example_env example_rd tfa_world ''default'' good_payload []) =
        Inl (InvalidOTPException (CHR 0x22 # ''otp'' @ CHR 0x22 # '' is required''))
   \<and> verifyOTP example_env ''u1'' ''000000'' = Inr False
   \<and> fst (login example_env example_rd tfa_world ''default'' good_payload ''000000'') =
        Inl (InvalidOTPException (CHR 0x22 # ''otp'' @ CHR 0x22 # '' is invalid''))
   \<and> verifyOTP example_env ''u1'' ''123456'' = Inr True
   \<and> login example_env example_rd tfa_world ''default'' good_payload ''123456'' =
        login_issue example_env example_rd
          (emit (ProviderLogin
                   (fst (login_attempts (Some 3) (select_user tfa_user example_role) tfa_world))
                   good_payload)
             (snd (login_attempts (Some 3) (select_user tfa_user example_role) tfa_world)))
          ''default'' good_payload (Some 3)
          (fst (login_attempts (Some 3) (select_user tfa_user example_role) tfa_world))"
proof -
  let ?u = "select_user tfa_user example_role"
  have h1: "getAuthProvider example_env ''default'' = Inr example_driver"
    by (simp add: example_env_def)
  have h2: "getUserID example_driver good_payload = Inr ''u1''"
    by (simp add: example_driver_def good_payload_def)
  have h3: "login_select tfa_world ''u1'' ''default'' = Some ?u"
    by code_simp
  have id: "user_id ?u = ''u1''"
    by code_simp
  have h4: "emitFilter_auth_login example_env good_payload
        \<lparr>meta_status = ''pending'', meta_user = Some (user_id ?u),
         meta_provider = Some ''default'', meta_type = None\<rparr> = Inr good_payload"
    by (simp add: example_env_def)
  have h5: "status ?u = ''active''"
    by code_simp
  have h6: "readSingleton_auth_login_attempts example_env = Inr (Some 3)"
    by (simp add: example_env_def)
  have h7: "login_attempts (Some 3) ?u tfa_world =
      (fst (login_attempts (Some 3) ?u tfa_world), snd (login_attempts (Some 3) ?u tfa_world))"
    by simp
  have h8: "driver_login example_driver (fst (login_attempts (Some 3) ?u tfa_world))
      good_payload = Inr ()"
    by code_simp
  have h9: "truthy (tfa_secret ?u)"
    by code_simp
  have v0: "verifyOTP example_env ''u1'' ''000000'' = Inr False"
    by (simp add: example_env_def)
  have v1: "verifyOTP example_env ''u1'' ''123456'' = Inr True"
    by (simp add: example_env_def)
  note T = login_second_factor [OF h1 h2 h3 h4 h5 h6 h7 h8 h9]
  have a: "fst (login example_env example_rd tfa_world ''default'' good_payload []) =
      Inl (InvalidOTPException (CHR 0x22 # ''otp'' @ CHR 0x22 # '' is required''))"
    using T [where otp = "[]" and rd = example_rd] by simp
  have b: "fst (login example_env example_rd tfa_world ''default'' good_payload ''000000'') =
      Inl (InvalidOTPException (CHR 0x22 # ''otp'' @ CHR 0x22 # '' is invalid''))"
    using T [where otp = "''000000''" and rd = example_rd] v0 by (simp add: id)
  have c: "login example_env example_rd tfa_world ''default'' good_payload ''123456'' =
      login_issue example_env example_rd
        (emit (ProviderLogin (fst (login_attempts (Some 3) ?u tfa_world)) good_payload)
           (snd (login_attempts (Some 3) ?u tfa_world)))
        ''default'' good_payload (Some 3) (fst (login_attempts (Some 3) ?u tfa_world))"
    using T [where otp = "''123456''" and rd = example_rd] v1 by (simp add: id)
  show ?thesis
    using h9 h8 a v0 b v1 c by simp
qed

text \<open>
  C8 as stated fails: it speaks of every login attempt by a user with a second-factor
  secret, and the status check and the credential check come first. Such a user who
  sends a wrong password and no OTP gets \<^verbatim>\<open>InvalidCredentials\<close>, and one who is
  suspended gets \<^verbatim>\<open>UserSuspended\<close>, neither of them \<^verbatim>\<open>InvalidOTP\<close>.
\<close>

theorem login_second_factor_not_reached:
  "map u_tfa_secret (directus_users tfa_world) = [Some ''JBSWY3DP'']
   \<and> fst (login example_env example_rd tfa_world ''default'' bad_payload []) =
       Inl InvalidCredentialsException
   \<and> map u_tfa_secret (directus_users suspended_tfa_world) = [Some ''JBSWY3DP'']
   \<and> fst (login example_env example_rd suspended_tfa_world ''default'' good_payload []) =
       Inl UserSuspendedException"
  by code_simp

section \<open>login: the exits and the timing normalizer\<close>





lemma login_issue_returns:
  assumes "\<forall>tp m. \<not> isl (emitFilter_auth_jwt env tp m)" and "\<forall>c. \<not> isl (jwt_sign env c)"
  shows "\<exists>r. fst (login_issue env rd w n p a u) = Inr r"
proof -
  let ?tp = "\<lparr>tp_id = Some (user_id u), tp_role = role u, tp_app_access = app_access u,
              tp_admin_access = admin_access u, tp_share_scope = None\<rparr>"
  let ?m = "\<lparr>meta_status = ''pending'', meta_user = Some (user_id u),
             meta_provider = Some n, meta_type = Some ''login''\<rparr>"
  from assms(1) have "\<not> isl (emitFilter_auth_jwt env ?tp ?m)"
    by blast
  then obtain c where c: "emitFilter_auth_jwt env ?tp ?m = Inr c"
    by (cases "emitFilter_auth_jwt env ?tp ?m") simp_all
  from assms(2) have "\<not> isl (jwt_sign env c)"
    by blast
  then obtain t where t: "jwt_sign env c = Inr t"
    by (cases "jwt_sign env c") simp_all
  show ?thesis
    by (simp add: login_issue_def Let_def c t)
qed







section \<open>login: the session row\<close>

lemma sessions_stall [simp]: "directus_sessions (stall ms start w) = directus_sessions w"
  by (simp add: stall_def)

lemma sessions_emitStatus [simp]: "directus_sessions (emitStatus p u n st w) = directus_sessions w"
  by (simp add: emitStatus_def)

lemma sessions_createOne_login [simp]:
  "directus_sessions (createOne_login acc uid w) = directus_sessions w"
  by (simp add: createOne_login_def split: option.split)

lemma sessions_update_last_access [simp]:
  "directus_sessions (update_last_access uid now w) = directus_sessions w"
  by (simp add: update_last_access_def)

lemma sessions_reset_attempts [simp]:
  "directus_sessions (reset_attempts a uid w) = directus_sessions w"
  by (simp add: reset_attempts_def split: option.split)

lemma login_select_SomeD:
  "login_select w uid n = Some u \<Longrightarrow> user_id u = uid \<and> provider u = n"
  by (auto simp: login_select_def select_user_def dest!: first_SomeD split: if_splits)

lemma login_issue_Inr:
  assumes "login_issue env rd w n p a u = (Inr r, w')"
  shows "refreshToken r = nanoid rd \<and> userId r = Some (user_id u)
       \<and> directus_sessions w' =
           filter (\<lambda>s. \<not> s_expires s < sweep_now rd) (directus_sessions w @ [login_session env rd u])"
  using assms
  by (auto simp: login_issue_def Let_def insert_session_def delete_expired_def
        split: sum.splits)

lemma login_tfa_Inr:
  assumes "login_tfa env rd w n p a u otp = (Inr r, w')"
  shows "login_issue env rd w n p a u = (Inr r, w')"
  using assms by (auto simp: login_tfa_def split: if_splits sum.splits)

lemma login_active_Inr:
  assumes "login_active env rd w drv n p u otp = (Inr r, w')"
  shows "\<exists>a user w1. readSingleton_auth_login_attempts env = Inr a
           \<and> login_attempts a u w = (user, w1)
           \<and> driver_login drv user p = Inr ()
           \<and> login_issue env rd (emit (ProviderLogin user p) w1) n p a user = (Inr r, w')"
  using assms
  by (auto simp: login_active_def Let_def split: sum.splits prod.splits dest!: login_tfa_Inr)

lemma login_Inr:
  assumes "login env rd w n pl otp = (Inr r, w')"
  shows "\<exists>drv uid u p. getAuthProvider env n = Inr drv \<and> getUserID drv pl = Inr uid
           \<and> login_select w uid n = Some u \<and> status u = ''active''
           \<and> login_active env rd w drv n p u otp = (Inr r, w')"
  using assms
  by (auto simp: login_def login_inactive_def Let_def split: sum.splits option.splits if_splits)


text \<open>
  C3, as the code has it. A successful \<^verbatim>\<open>login\<close> returns the generated refresh token
  and the identifier of the user the query found, appends the session row with that
  token, that user and the expiry \<open>issue time + TTL\<close>, and then sweeps the rows whose
  expiry lies before the clock of the sweep. The new row is in the store after the call
  provided it has not expired by then, that is, the clock of the sweep is not past the
  issue time plus the refresh-token lifetime.
\<close>

theorem login_session_persisted:
  assumes "login env rd w providerName pl otp = (Inr r, w')"
  shows "\<exists>drv u. getAuthProvider env providerName = Inr drv
           \<and> getUserID drv pl = Inr (user_id u)
           \<and> login_select w (user_id u) providerName = Some u
           \<and> userId r = Some (user_id u)
           \<and> refreshToken r = nanoid rd
           \<and> directus_sessions w' =
               filter (\<lambda>s. \<not> s_expires s < sweep_now rd)
                 (directus_sessions w @ [login_session env rd u])
           \<and> (sweep_now rd \<le> issue_now rd + REFRESH_TOKEN_TTL env \<longrightarrow>
                (\<exists>s \<in> set (directus_sessions w').
                   s_token s = refreshToken r \<and> s_user s = userId r
                   \<and> s_expires s = issue_now rd + REFRESH_TOKEN_TTL env))"
proof -
  from login_Inr [OF assms] obtain drv uid u p where
    drv: "getAuthProvider env providerName = Inr drv" and uid: "getUserID drv pl = Inr uid"
    and u: "login_select w uid providerName = Some u"
    and act: "login_active env rd w drv providerName p u otp = (Inr r, w')"
    by blast
  from login_select_SomeD [OF u] have id: "user_id u = uid" by simp
  from login_active_Inr [OF act] obtain a user w1 where
    la: "login_attempts a u w = (user, w1)"
    and iss: "login_issue env rd (emit (ProviderLogin user p) w1) providerName p a user = (Inr r, w')"
    by blast
  have same: "user_id user = user_id u" "directus_sessions w1 = directus_sessions w"
    using la user_id_login_attempts [of a u w] sessions_login_attempts [of a u w] by simp_all
  have ls: "login_session env rd user = login_session env rd u"
    by (simp add: login_session_def same)
  from login_issue_Inr [OF iss] have
    r: "refreshToken r = nanoid rd" "userId r = Some (user_id u)"
    and s: "directus_sessions w' =
      filter (\<lambda>s. \<not> s_expires s < sweep_now rd) (directus_sessions w @ [login_session env rd u])"
    by (simp_all add: ls same)
  have "sweep_now rd \<le> issue_now rd + REFRESH_TOKEN_TTL env \<longrightarrow>
      (\<exists>s \<in> set (directus_sessions w').
         s_token s = refreshToken r \<and> s_user s = userId r
         \<and> s_expires s = issue_now rd + REFRESH_TOKEN_TTL env)"
    by (auto simp: s r login_session_def intro!: bexI [of _ "login_session env rd u"])
  then show ?thesis
    using drv uid u id r s by auto
qed

theorem login_session_persisted_witness:
  "login example_env example_rd example_world ''default'' good_payload [] =
     (Inr example_result,
      snd (login example_env example_rd example_world ''default'' good_payload []))
   \<and> sweep_now example_rd \<le> issue_now example_rd + REFRESH_TOKEN_TTL example_env
   \<and> (\<exists>s \<in> set (directus_sessions
                   (snd (login example_env example_rd example_world ''default'' good_payload []))).
         s_token s = ''tok1'' \<and> s_user s = Some ''u1'' \<and> s_expires s = 604801000)"
proof -
  have f: "fst (login example_env example_rd example_world ''default'' good_payload []) =
      Inr example_result"
    by code_simp
  have h: "login example_env example_rd example_world ''default'' good_payload [] =
     (Inr example_result,
      snd (login example_env example_rd example_world ''default'' good_payload []))"
    using f by (simp add: prod_eq_iff)
  have t: "sweep_now example_rd \<le> issue_now example_rd + REFRESH_TOKEN_TTL example_env"
    by (simp add: example_rd_def example_env_def)
  have v: "refreshToken example_result = ''tok1''" "userId example_result = Some ''u1''"
    "issue_now example_rd + REFRESH_TOKEN_TTL example_env = 604801000"
    by (simp_all add: example_result_def example_rd_def example_env_def)
  show ?thesis
    using login_session_persisted [OF h] h t by (auto simp: v)
qed

text \<open>
  C3 as stated fails: with a refresh-token lifetime of zero and a clock that has moved
  by one millisecond when the sweep runs, \<^verbatim>\<open>login\<close> succeeds and the store has no
  session row afterwards.
\<close>

theorem login_session_swept:
  "fst (login zero_ttl_env example_rd example_world ''default'' good_payload []) =
     Inr example_result
   \<and> directus_sessions
       (snd (login zero_ttl_env example_rd example_world ''default'' good_payload [])) = []"
  by code_simp

section \<open>login: the attempt after the budget is used up\<close>

text \<open>
  In general: when the counter of an active user without a second factor has reached
  the budget and the provider accepts the credentials, \<^verbatim>\<open>login\<close> succeeds and
  leaves the user's row suspended.
\<close>

lemma login_attempts_over_budget:
  assumes "consumed (loginAttemptsLimiter w) (user_id u) = Some c" and "n \<le> c"
  shows "fst (login_attempts (Some n) u w) = u\<lparr>status := ''suspended''\<rparr>
       \<and> directus_users (snd (login_attempts (Some n) u w)) =
           suspend_user (user_id u) (directus_users w)"
  using assms by (simp add: login_attempts_def consume_def Let_def)

lemma users_login_issue:
  assumes "login_issue env rd w n p a u = (Inr r, w')"
  shows "directus_users w' =
           map (\<lambda>x. if u_id x = user_id u then x\<lparr>u_last_access := Some (access_now rd)\<rparr> else x)
             (directus_users w)"
  using assms
  by (auto simp: login_issue_def Let_def insert_session_def delete_expired_def
        createOne_login_def update_last_access_def emitStatus_def emit_def stall_def
        reset_attempts_def split: sum.splits option.splits)

lemma login_over_budget_accepted:
  assumes "getAuthProvider env n = Inr drv" and "getUserID drv pl = Inr uid"
    and "login_select w uid n = Some u" and "status u = ''active''"
    and "emitFilter_auth_login env pl
           \<lparr>meta_status = ''pending'', meta_user = Some (user_id u),
            meta_provider = Some n, meta_type = None\<rparr> = Inr p"
    and "readSingleton_auth_login_attempts env = Inr (Some budget)"
    and "consumed (loginAttemptsLimiter w) (user_id u) = Some c" and "budget \<le> c"
    and "driver_login drv (u\<lparr>status := ''suspended''\<rparr>) p = Inr ()"
    and "\<not> truthy (tfa_secret u)"
    and "\<forall>tp m. \<not> isl (emitFilter_auth_jwt env tp m)" and "\<forall>c. \<not> isl (jwt_sign env c)"
  shows "\<exists>r. fst (login env rd w n pl otp) = Inr r
           \<and> (\<forall>x \<in> set (directus_users (snd (login env rd w n pl otp))).
                 u_id x = user_id u \<longrightarrow> u_status x = ''suspended'')"
proof -
  obtain user w1 where la: "login_attempts (Some budget) u w = (user, w1)"
    by (cases "login_attempts (Some budget) u w")
  from login_attempts_over_budget [OF assms(7,8)] la
  have user: "user = u\<lparr>status := ''suspended''\<rparr>"
    and us: "directus_users w1 = suspend_user (user_id u) (directus_users w)"
    by simp_all
  let ?w2 = "emit (ProviderLogin user p) w1"
  have step: "login env rd w n pl otp = login_issue env rd ?w2 n p (Some budget) user"
    using assms(1-6,9,10) la user
    by (simp add: login_def login_active_def login_tfa_def Let_def)
  from login_issue_returns [OF assms(11,12)] obtain r where
    r: "fst (login_issue env rd ?w2 n p (Some budget) user) = Inr r"
    by blast
  then have "login_issue env rd ?w2 n p (Some budget) user =
      (Inr r, snd (login_issue env rd ?w2 n p (Some budget) user))"
    by (simp add: prod_eq_iff)
  from users_login_issue [OF this]
  have "\<forall>x \<in> set (directus_users (snd (login_issue env rd ?w2 n p (Some budget) user))).
          u_id x = user_id u \<longrightarrow> u_status x = ''suspended''"
    by (auto simp: emit_def us suspend_user_def user)
  with r show ?thesis
    by (auto simp: step)
qed

text \<open>
  C2, on the code. With a budget of three, three logins with a wrong password fail and
  leave the counter at three and the user active. The fourth login, with the right
  password, is rejected by the limiter, which sets the user's row to \<^verbatim>\<open>suspended\<close>;
  the credential check then accepts and \<^verbatim>\<open>login\<close> returns tokens and stores a
  session for the user it has just suspended. Only the login after that one throws
  \<^verbatim>\<open>UserSuspended\<close>.
\<close>

theorem login_after_budget_succeeds:
  "fst (login example_env example_rd example_world ''default'' bad_payload []) =
     Inl InvalidCredentialsException
   \<and> fst (login example_env example_rd after_one_failure ''default'' bad_payload []) =
       Inl InvalidCredentialsException
   \<and> fst (login example_env example_rd after_two_failures ''default'' bad_payload []) =
       Inl InvalidCredentialsException
   \<and> consumed (loginAttemptsLimiter after_three_failures) ''u1'' = Some 3
   \<and> map u_status (directus_users after_three_failures) = [''active'']
   \<and> fst (login example_env example_rd after_three_failures ''default'' good_payload []) =
       Inr example_result
   \<and> map u_status (directus_users
       (snd (login example_env example_rd after_three_failures ''default'' good_payload []))) =
       [''suspended'']
   \<and> map s_user (directus_sessions
       (snd (login example_env example_rd after_three_failures ''default'' good_payload []))) =
       [Some ''u1'']
   \<and> fst (login example_env example_rd
       (snd (login example_env example_rd after_three_failures ''default'' good_payload []))
       ''default'' good_payload []) = Inl UserSuspendedException"
  by code_simp

section \<open>refresh: the token payload of a share\<close>

text \<open>In general: for a row with a share, the payload has the share's scope and no
  role.\<close>

lemma refresh_tokenPayload_share:
  assumes "row_d rec = Some d" and "d_id d \<noteq> []"
  shows "tp_role (refresh_tokenPayload rec) = None
       \<and> tp_share_scope (refresh_tokenPayload rec) = Some (d_collection d, d_item d)
       \<and> tp_id (refresh_tokenPayload rec) = record_user_id rec"
  using assms by (simp add: refresh_tokenPayload_def record_share_role_def Let_def)


text \<open>
  C6, on the code. For a session of a share whose role is \<^verbatim>\<open>r2\<close>, the payload
  \<^verbatim>\<open>refresh\<close> builds has the share's scope and no user, but its role is undefined
  and not \<^verbatim>\<open>r2\<close>: line 314 overwrites the role the query joined with the value of a
  property the select list never defines. The signer of the example shows the role it
  received in the token.
\<close>

theorem refresh_share_role_undefined:
  "d_role example_share = Some ''r2''
   \<and> map_option refresh_tokenPayload (refresh_select share_world 1000 ''share-tok'') =
       Some \<lparr>tp_id = None, tp_role = None, tp_app_access = Some False,
             tp_admin_access = Some False, tp_share_scope = Some (''articles'', ''42'')\<rparr>
   \<and> fst (refresh example_env example_rd share_world ''share-tok'') =
       Inr \<lparr>accessToken = ''jwt role=undefined'', refreshToken = ''tok1'', expires = 900000,
             userId = None\<rparr>"
  by code_simp

section \<open>refresh: rotation of the session row\<close>

lemma left_join_nonempty [simp]: "left_join xs \<noteq> []"
  by (simp add: left_join_def)

lemma left_join_ex: "\<exists>x. x \<in> set (left_join xs)"
  by (cases xs) (auto simp: left_join_def)

lemma in_left_join:
  "x \<in> set (left_join xs) \<longleftrightarrow> (case x of None \<Rightarrow> xs = [] | Some y \<Rightarrow> y \<in> set xs)"
  by (auto simp: left_join_def split: option.splits)

lemma in_refresh_rows:
  "rec \<in> set (refresh_rows w now tok) \<longleftrightarrow>
     row_s rec \<in> set (directus_sessions w)
     \<and> row_u rec \<in> set (left_join [u \<leftarrow> directus_users w. s_user (row_s rec) = Some (u_id u)])
     \<and> row_d rec \<in> set (left_join [d \<leftarrow> directus_shares w. s_share (row_s rec) = Some (d_id d)])
     \<and> row_r rec \<in> set (left_join [r \<leftarrow> directus_roles w. role_matches r (row_u rec) (row_d rec)])
     \<and> s_token (row_s rec) = tok \<and> now \<le> s_expires (row_s rec)
     \<and> share_unexpired (row_d rec) now"
  by (cases rec) (auto simp: refresh_rows_def)

lemma refresh_rows_empty_iff:
  "refresh_rows w now tok = [] \<longleftrightarrow> \<not> live_session w now tok"
proof
  assume e: "refresh_rows w now tok = []"
  show "\<not> live_session w now tok"
  proof
    assume "live_session w now tok"
    then obtain s d where s: "s \<in> set (directus_sessions w)" "s_token s = tok" "now \<le> s_expires s"
      and d: "d \<in> set (left_join [d \<leftarrow> directus_shares w. s_share s = Some (d_id d)])"
        "share_unexpired d now"
      by (auto simp: live_session_def)
    obtain u where u: "u \<in> set (left_join [u \<leftarrow> directus_users w. s_user s = Some (u_id u)])"
      using left_join_ex by blast
    obtain r where r: "r \<in> set (left_join [r \<leftarrow> directus_roles w. role_matches r u d])"
      using left_join_ex by blast
    have "\<lparr>row_s = s, row_u = u, row_d = d, row_r = r\<rparr> \<in> set (refresh_rows w now tok)"
      using s d u r by (simp add: in_refresh_rows)
    then show False using e by simp
  qed
next
  assume n: "\<not> live_session w now tok"
  show "refresh_rows w now tok = []"
  proof (rule ccontr)
    assume "refresh_rows w now tok \<noteq> []"
    then obtain rec where "rec \<in> set (refresh_rows w now tok)"
      by (cases "refresh_rows w now tok") auto
    then have "live_session w now tok"
      unfolding in_refresh_rows live_session_def by blast
    then show False using n by simp
  qed
qed


lemma refresh_select_None_iff:
  "refresh_select w now tok = None \<longleftrightarrow> \<not> live_session w now tok"
  by (simp add: refresh_select_def refresh_rows_empty_iff)

lemma refresh_select_SomeD:
  "refresh_select w now tok = Some rec \<Longrightarrow> rec \<in> set (refresh_rows w now tok)"
  by (simp add: refresh_select_def first_SomeD)

lemma sessions_refresh_last_access [simp]:
  "directus_sessions (refresh_last_access rec now w) = directus_sessions w"
  by (simp add: refresh_last_access_def split: option.split)

lemma sessions_rotate_session:
  "directus_sessions (rotate_session tok new e w) =
     map (\<lambda>s. if s_token s = tok then s\<lparr>s_token := new, s_expires := e\<rparr> else s)
       (directus_sessions w)"
  by (simp add: rotate_session_def)

lemma refresh_Inr:
  assumes "refresh env rd w tok = (Inr r, w')"
  shows "tok \<noteq> [] \<and> (\<exists>rec. refresh_select w (knex_now rd) tok = Some rec
           \<and> refreshToken r = nanoid rd \<and> userId r = record_user_id rec
           \<and> w' = refresh_last_access rec (access_now rd)
                    (rotate_session tok (nanoid rd) (issue_now rd + REFRESH_TOKEN_TTL env) w))"
  using assms
  by (auto simp: refresh_def Let_def split: if_splits option.splits sum.splits)

lemma refresh_no_live_session:
  assumes "\<not> live_session w (knex_now rd) tok"
  shows "refresh env rd w tok = (Inl InvalidCredentialsException, w)"
  using assms by (simp add: refresh_def refresh_select_None_iff [symmetric])


text \<open>
  C4. A successful \<^verbatim>\<open>refresh\<close> with token \<open>tok\<close> found a session row with that
  token; it returns the freshly generated token, and the session table after the call
  is the one before it with the token and the expiry of the rows that had \<open>tok\<close>
  replaced, in place, by the returned token and by \<open>now + TTL\<close>. When the generated
  token is fresh (it differs from \<open>tok\<close>), no row with \<open>tok\<close> remains, and any later
  \<^verbatim>\<open>refresh\<close> with \<open>tok\<close> on that store throws \<^verbatim>\<open>InvalidCredentials\<close>.
\<close>

theorem refresh_rotates_session:
  assumes "refresh env rd w tok = (Inr r, w')"
  shows "refreshToken r = nanoid rd
       \<and> (\<exists>s \<in> set (directus_sessions w). s_token s = tok)
       \<and> directus_sessions w' =
           map (\<lambda>s. if s_token s = tok
                     then s\<lparr>s_token := refreshToken r,
                            s_expires := issue_now rd + REFRESH_TOKEN_TTL env\<rparr>
                     else s) (directus_sessions w)
       \<and> (nanoid rd \<noteq> tok \<longrightarrow>
            (\<forall>s \<in> set (directus_sessions w'). s_token s \<noteq> tok)
          \<and> refresh env2 rd2 w' tok = (Inl InvalidCredentialsException, w'))"
proof -
  from refresh_Inr [OF assms] obtain rec where
    sel: "refresh_select w (knex_now rd) tok = Some rec"
    and r: "refreshToken r = nanoid rd"
    and w': "w' = refresh_last_access rec (access_now rd)
                    (rotate_session tok (nanoid rd) (issue_now rd + REFRESH_TOKEN_TTL env) w)"
    by blast
  from refresh_select_SomeD [OF sel]
  have ex: "\<exists>s \<in> set (directus_sessions w). s_token s = tok"
    unfolding in_refresh_rows by blast
  have ses: "directus_sessions w' =
           map (\<lambda>s. if s_token s = tok
                     then s\<lparr>s_token := refreshToken r,
                            s_expires := issue_now rd + REFRESH_TOKEN_TTL env\<rparr>
                     else s) (directus_sessions w)"
    by (simp add: w' r sessions_rotate_session)
  have gone: "nanoid rd \<noteq> tok \<longrightarrow> (\<forall>s \<in> set (directus_sessions w'). s_token s \<noteq> tok)"
    by (auto simp: ses r)
  have again: "nanoid rd \<noteq> tok \<longrightarrow> refresh env2 rd2 w' tok = (Inl InvalidCredentialsException, w')"
  proof
    assume "nanoid rd \<noteq> tok"
    with gone have "\<not> live_session w' (knex_now rd2) tok"
      by (auto simp: live_session_def)
    then show "refresh env2 rd2 w' tok = (Inl InvalidCredentialsException, w')"
      by (rule refresh_no_live_session)
  qed
  show ?thesis
    using r ex ses gone again by blast
qed


theorem refresh_rotates_session_witness:
  "refresh example_env example_rd session_world ''tok0'' =
     (Inr example_result, snd (refresh example_env example_rd session_world ''tok0''))
   \<and> nanoid example_rd \<noteq> ''tok0''
   \<and> directus_sessions (snd (refresh example_env example_rd session_world ''tok0'')) =
       [example_session\<lparr>s_token := ''tok1'', s_expires := 604801000\<rparr>]
   \<and> fst (refresh example_env example_rd
            (snd (refresh example_env example_rd session_world ''tok0'')) ''tok0'') =
       Inl InvalidCredentialsException"
proof -
  have f: "fst (refresh example_env example_rd session_world ''tok0'') = Inr example_result"
    by code_simp
  have h: "refresh example_env example_rd session_world ''tok0'' =
     (Inr example_result, snd (refresh example_env example_rd session_world ''tok0''))"
    using f by (simp add: prod_eq_iff)
  have n: "nanoid example_rd \<noteq> ''tok0''"
    by (simp add: example_rd_def)
  have v: "directus_sessions session_world = [example_session]" "s_token example_session = ''tok0''"
    "refreshToken example_result = ''tok1''"
    "issue_now example_rd + REFRESH_TOKEN_TTL example_env = 604801000"
    by (simp_all add: session_world_def example_world_def example_session_def example_result_def
          example_rd_def example_env_def)
  show ?thesis
    using refresh_rotates_session [OF h, of example_env example_rd] h n
    by (simp add: v)
qed

section \<open>refresh: when it throws InvalidCredentials\<close>

lemma refresh_Inl_unchanged:
  assumes "refresh env rd w tok = (Inl e, w')"
  shows "w' = w"
  using assms
  by (auto simp: refresh_def Let_def split: if_splits option.splits sum.splits)

lemma refresh_returns:
  assumes "tok \<noteq> []" and "refresh_select w (knex_now rd) tok = Some rec"
    and "truthy (record_share_id rec) \<or> truthy (record_user_id rec)"
    and "refresh_collaborators_return env rec"
  shows "fst (refresh env rd w tok) =
           Inr \<lparr>accessToken = projr (jwt_sign env (projr (emitFilter_auth_jwt env (refresh_tokenPayload rec)
                    \<lparr>meta_status = ''pending'', meta_user = record_user_id rec,
                     meta_provider = record_user_provider rec, meta_type = Some ''refresh''\<rparr>))),
                 refreshToken = nanoid rd, expires = ACCESS_TOKEN_TTL env,
                 userId = record_user_id rec\<rparr>"
proof -
  let ?m = "\<lparr>meta_status = ''pending'', meta_user = record_user_id rec,
             meta_provider = record_user_provider rec, meta_type = Some ''refresh''\<rparr>"
  from assms(4) have p: "\<not> isl (refresh_provider env rec)"
    and f: "\<not> isl (emitFilter_auth_jwt env (refresh_tokenPayload rec) ?m)"
    and g: "\<forall>c. \<not> isl (jwt_sign env c)"
    unfolding refresh_collaborators_return_def by blast+
  from p obtain x where p': "refresh_provider env rec = Inr x"
    by (cases "refresh_provider env rec") simp_all
  from f obtain c where c: "emitFilter_auth_jwt env (refresh_tokenPayload rec) ?m = Inr c"
    by (cases "emitFilter_auth_jwt env (refresh_tokenPayload rec) ?m") simp_all
  from g have "\<not> isl (jwt_sign env c)" by blast
  then obtain t where t: "jwt_sign env c = Inr t"
    by (cases "jwt_sign env c") simp_all
  show ?thesis
    using assms(1-3) by (auto simp: refresh_def Let_def p' c t)
qed


text \<open>
  C5, as the code has it. \<^verbatim>\<open>refresh\<close> throws \<^verbatim>\<open>InvalidCredentials\<close> and leaves the
  store as it was whenever there is no identity: the token is empty, or no session row
  with the token is unexpired with an unexpired share, or the row the query returns
  has neither a user nor a share. Every other failure leaves the store unchanged as
  well. When there is an identity, \<^verbatim>\<open>refresh\<close> succeeds if the collaborators it
  calls return normally. Otherwise it throws the error of the first collaborator that
  throws, unchanged: the registry's when it does not know the user's provider, else the
  refresh hook's, else the \<^verbatim>\<open>auth.jwt\<close> filter's, else the signer's. Without a user
  no provider is asked.
\<close>

theorem refresh_invalid_credentials:
  "(no_identity w (knex_now rd) tok \<longrightarrow>
      refresh env rd w tok = (Inl InvalidCredentialsException, w))
   \<and> (no_identity w (knex_now rd) tok \<longleftrightarrow>
        tok = [] \<or> \<not> live_session w (knex_now rd) tok
        \<or> (\<exists>rec. refresh_select w (knex_now rd) tok = Some rec
              \<and> \<not> truthy (record_share_id rec) \<and> \<not> truthy (record_user_id rec)))
   \<and> (\<forall>e w'. refresh env rd w tok = (Inl e, w') \<longrightarrow> w' = w)
   \<and> (\<forall>rec. \<not> no_identity w (knex_now rd) tok
          \<and> refresh_select w (knex_now rd) tok = Some rec
          \<and> refresh_collaborators_return env rec \<longrightarrow>
        (\<exists>r. fst (refresh env rd w tok) = Inr r))
   \<and> (\<forall>rec e. \<not> no_identity w (knex_now rd) tok
          \<and> refresh_select w (knex_now rd) tok = Some rec
          \<and> refresh_provider env rec = Inl e \<longrightarrow>
        refresh env rd w tok = (Inl e, w))
   \<and> (\<forall>rec e. \<not> no_identity w (knex_now rd) tok
          \<and> refresh_select w (knex_now rd) tok = Some rec
          \<and> refresh_provider env rec = Inr ()
          \<and> emitFilter_auth_jwt env (refresh_tokenPayload rec)
               \<lparr>meta_status = ''pending'', meta_user = record_user_id rec,
                meta_provider = record_user_provider rec,
                meta_type = Some ''refresh''\<rparr> = Inl e \<longrightarrow>
        refresh env rd w tok = (Inl e, w))
   \<and> (\<forall>rec c e. \<not> no_identity w (knex_now rd) tok
          \<and> refresh_select w (knex_now rd) tok = Some rec
          \<and> refresh_provider env rec = Inr ()
          \<and> emitFilter_auth_jwt env (refresh_tokenPayload rec)
               \<lparr>meta_status = ''pending'', meta_user = record_user_id rec,
                meta_provider = record_user_provider rec,
                meta_type = Some ''refresh''\<rparr> = Inr c
          \<and> jwt_sign env c = Inl e \<longrightarrow>
        refresh env rd w tok = (Inl e, w))
   \<and> (\<forall>rec c t. \<not> no_identity w (knex_now rd) tok
          \<and> refresh_select w (knex_now rd) tok = Some rec
          \<and> refresh_provider env rec = Inr ()
          \<and> emitFilter_auth_jwt env (refresh_tokenPayload rec)
               \<lparr>meta_status = ''pending'', meta_user = record_user_id rec,
                meta_provider = record_user_provider rec,
                meta_type = Some ''refresh''\<rparr> = Inr c
          \<and> jwt_sign env c = Inr t \<longrightarrow>
        fst (refresh env rd w tok) =
          Inr \<lparr>accessToken = t, refreshToken = nanoid rd, expires = ACCESS_TOKEN_TTL env,
                userId = record_user_id rec\<rparr>)
   \<and> (\<forall>rec u e. row_u rec = Some u \<and> u_id u \<noteq> []
          \<and> getAuthProvider env (u_provider u) = Inl e \<longrightarrow>
        refresh_provider env rec = Inl e)
   \<and> (\<forall>rec u drv. row_u rec = Some u \<and> u_id u \<noteq> []
          \<and> getAuthProvider env (u_provider u) = Inr drv \<longrightarrow>
        refresh_provider env rec = driver_refresh drv (refresh_user rec u))
   \<and> (\<forall>rec. \<not> truthy (record_user_id rec) \<longrightarrow> refresh_provider env rec = Inr ())"
proof -
  have id: "tok \<noteq> [] \<and> (truthy (record_share_id rec) \<or> truthy (record_user_id rec))"
    if "\<not> no_identity w (knex_now rd) tok" and "refresh_select w (knex_now rd) tok = Some rec"
    for rec
    using that by (auto simp: no_identity_def)
  have p1: "\<forall>rec e. \<not> no_identity w (knex_now rd) tok
          \<and> refresh_select w (knex_now rd) tok = Some rec
          \<and> refresh_provider env rec = Inl e \<longrightarrow>
        refresh env rd w tok = (Inl e, w)"
    using id by (auto simp: refresh_def)
  have p2: "\<forall>rec e. \<not> no_identity w (knex_now rd) tok
          \<and> refresh_select w (knex_now rd) tok = Some rec
          \<and> refresh_provider env rec = Inr ()
          \<and> emitFilter_auth_jwt env (refresh_tokenPayload rec)
               \<lparr>meta_status = ''pending'', meta_user = record_user_id rec,
                meta_provider = record_user_provider rec,
                meta_type = Some ''refresh''\<rparr> = Inl e \<longrightarrow>
        refresh env rd w tok = (Inl e, w)"
    using id by (auto simp: refresh_def)
  have p3: "\<forall>rec c e. \<not> no_identity w (knex_now rd) tok
          \<and> refresh_select w (knex_now rd) tok = Some rec
          \<and> refresh_provider env rec = Inr ()
          \<and> emitFilter_auth_jwt env (refresh_tokenPayload rec)
               \<lparr>meta_status = ''pending'', meta_user = record_user_id rec,
                meta_provider = record_user_provider rec,
                meta_type = Some ''refresh''\<rparr> = Inr c
          \<and> jwt_sign env c = Inl e \<longrightarrow>
        refresh env rd w tok = (Inl e, w)"
    using id by (auto simp: refresh_def)
  have p4: "\<forall>rec c t. \<not> no_identity w (knex_now rd) tok
          \<and> refresh_select w (knex_now rd) tok = Some rec
          \<and> refresh_provider env rec = Inr ()
          \<and> emitFilter_auth_jwt env (refresh_tokenPayload rec)
               \<lparr>meta_status = ''pending'', meta_user = record_user_id rec,
                meta_provider = record_user_provider rec,
                meta_type = Some ''refresh''\<rparr> = Inr c
          \<and> jwt_sign env c = Inr t \<longrightarrow>
        fst (refresh env rd w tok) =
          Inr \<lparr>accessToken = t, refreshToken = nanoid rd, expires = ACCESS_TOKEN_TTL env,
                userId = record_user_id rec\<rparr>"
    using id by (auto simp: refresh_def Let_def)
  have p5: "\<forall>rec u e. row_u rec = Some u \<and> u_id u \<noteq> []
          \<and> getAuthProvider env (u_provider u) = Inl e \<longrightarrow>
        refresh_provider env rec = Inl e"
    by (simp add: refresh_provider_def)
  have p6: "\<forall>rec u drv. row_u rec = Some u \<and> u_id u \<noteq> []
          \<and> getAuthProvider env (u_provider u) = Inr drv \<longrightarrow>
        refresh_provider env rec = driver_refresh drv (refresh_user rec u)"
    by (simp add: refresh_provider_def)
  have p7: "\<forall>rec. \<not> truthy (record_user_id rec) \<longrightarrow> refresh_provider env rec = Inr ()"
    by (auto simp: refresh_provider_def truthy_def record_user_id_def split: option.splits)
  have a: "no_identity w (knex_now rd) tok \<longrightarrow>
      refresh env rd w tok = (Inl InvalidCredentialsException, w)"
    by (auto simp: no_identity_def refresh_def split: option.splits)
  have b: "no_identity w (knex_now rd) tok \<longleftrightarrow>
        tok = [] \<or> \<not> live_session w (knex_now rd) tok
        \<or> (\<exists>rec. refresh_select w (knex_now rd) tok = Some rec
              \<and> \<not> truthy (record_share_id rec) \<and> \<not> truthy (record_user_id rec))"
    by (cases "refresh_select w (knex_now rd) tok")
       (simp_all add: no_identity_def refresh_select_None_iff [symmetric])
  have c: "\<forall>e w'. refresh env rd w tok = (Inl e, w') \<longrightarrow> w' = w"
    using refresh_Inl_unchanged by blast
  have d: "\<forall>rec. \<not> no_identity w (knex_now rd) tok
          \<and> refresh_select w (knex_now rd) tok = Some rec
          \<and> refresh_collaborators_return env rec \<longrightarrow>
        (\<exists>r. fst (refresh env rd w tok) = Inr r)"
  proof (intro allI impI, elim conjE)
    fix rec
    assume n: "\<not> no_identity w (knex_now rd) tok"
      and s: "refresh_select w (knex_now rd) tok = Some rec"
      and k: "refresh_collaborators_return env rec"
    from n s have "tok \<noteq> []" "truthy (record_share_id rec) \<or> truthy (record_user_id rec)"
      by (auto simp: no_identity_def)
    from refresh_returns [OF this(1) s this(2) k]
    show "\<exists>r. fst (refresh env rd w tok) = Inr r" by blast
  qed
  show ?thesis
    using a b c d p1 p2 p3 p4 p5 p6 p7 by (intro conjI) assumption+
qed



theorem refresh_invalid_credentials_witness:
  "no_identity session_world (knex_now example_rd) ''nope''
   \<and> refresh example_env example_rd session_world ''nope'' =
       (Inl InvalidCredentialsException, session_world)
   \<and> \<not> no_identity session_world (knex_now example_rd) ''tok0''
   \<and> refresh_select session_world (knex_now example_rd) ''tok0'' = Some example_row
   \<and> refresh_collaborators_return example_env example_row
   \<and> (\<exists>r. fst (refresh example_env example_rd session_world ''tok0'') = Inr r)
   \<and> refresh_provider no_sign_env example_row = Inr ()
   \<and> emitFilter_auth_jwt no_sign_env (refresh_tokenPayload example_row)
        \<lparr>meta_status = ''pending'', meta_user = record_user_id example_row,
         meta_provider = record_user_provider example_row,
         meta_type = Some ''refresh''\<rparr> = Inr (refresh_tokenPayload example_row, [])
   \<and> jwt_sign no_sign_env (refresh_tokenPayload example_row, []) =
        Inl (OtherException ''sign'')
   \<and> refresh no_sign_env example_rd session_world ''tok0'' =
        (Inl (OtherException ''sign''), session_world)"
proof -
  have hp: "refresh_provider no_sign_env example_row = Inr ()"
    by (simp add: refresh_provider_def example_row_def example_user_def no_sign_env_def
          example_env_def example_driver_def)
  have hf: "emitFilter_auth_jwt no_sign_env (refresh_tokenPayload example_row)
        \<lparr>meta_status = ''pending'', meta_user = record_user_id example_row,
         meta_provider = record_user_provider example_row,
         meta_type = Some ''refresh''\<rparr> = Inr (refresh_tokenPayload example_row, [])"
    by (simp add: no_sign_env_def example_env_def)
  have hs: "jwt_sign no_sign_env (refresh_tokenPayload example_row, []) =
        Inl (OtherException ''sign'')"
    by (simp add: no_sign_env_def)
  have a: "no_identity session_world (knex_now example_rd) ''nope''"
    by code_simp
  have b: "\<not> no_identity session_world (knex_now example_rd) ''tok0''"
    by code_simp
  have c: "refresh_select session_world (knex_now example_rd) ''tok0'' = Some example_row"
    by code_simp
  have d: "refresh_collaborators_return example_env example_row"
    by (simp add: refresh_collaborators_return_def refresh_provider_def example_row_def
          example_user_def example_env_def example_driver_def example_sign_def)
  note T = refresh_invalid_credentials [of session_world example_rd _ example_env]
  have e: "refresh example_env example_rd session_world ''nope'' =
       (Inl InvalidCredentialsException, session_world)"
    using T [of "''nope''"] a by blast
  have g: "\<exists>r. fst (refresh example_env example_rd session_world ''tok0'') = Inr r"
    using T [of "''tok0''"] b c d by blast
  have k: "\<not> no_identity session_world (knex_now example_rd) ''tok0''
      \<and> refresh_select session_world (knex_now example_rd) ''tok0'' = Some example_row
      \<and> refresh_provider no_sign_env example_row = Inr ()
      \<and> emitFilter_auth_jwt no_sign_env (refresh_tokenPayload example_row)
           \<lparr>meta_status = ''pending'', meta_user = record_user_id example_row,
            meta_provider = record_user_provider example_row,
            meta_type = Some ''refresh''\<rparr> = Inr (refresh_tokenPayload example_row, [])
      \<and> jwt_sign no_sign_env (refresh_tokenPayload example_row, []) =
           Inl (OtherException ''sign'')"
    using b c hp hf hs by simp
  have s: "\<forall>rec c e. \<not> no_identity session_world (knex_now example_rd) ''tok0''
          \<and> refresh_select session_world (knex_now example_rd) ''tok0'' = Some rec
          \<and> refresh_provider no_sign_env rec = Inr ()
          \<and> emitFilter_auth_jwt no_sign_env (refresh_tokenPayload rec)
               \<lparr>meta_status = ''pending'', meta_user = record_user_id rec,
                meta_provider = record_user_provider rec,
                meta_type = Some ''refresh''\<rparr> = Inr c
          \<and> jwt_sign no_sign_env c = Inl e \<longrightarrow>
        refresh no_sign_env example_rd session_world ''tok0'' = (Inl e, session_world)"
    using refresh_invalid_credentials [of session_world example_rd "''tok0''" no_sign_env]
    by (elim conjE)
  have n: "refresh no_sign_env example_rd session_world ''tok0'' =
        (Inl (OtherException ''sign''), session_world)"
    using s [rule_format, OF k] .
  show ?thesis
    using a e b c d g hp hf hs n by (intro conjI) assumption+
qed

text \<open>
  C5 as stated fails in the direction from the error to its cause: with an unexpired
  session of an existing user, a provider whose refresh hook rejects makes
  \<^verbatim>\<open>refresh\<close> throw \<^verbatim>\<open>InvalidCredentials\<close> although an identity was established.
\<close>

theorem refresh_rejected_by_provider:
  "\<not> no_identity session_world (knex_now example_rd) ''tok0''
   \<and> fst (refresh rejecting_env example_rd session_world ''tok0'') =
       Inl InvalidCredentialsException"
  by code_simp

section \<open>logout\<close>

lemma logout_select_None_iff:
  "logout_select w tok = None \<longleftrightarrow> \<not> user_session w tok"
  by (auto simp: logout_select_def user_session_def)

lemma sessions_delete_session:
  "directus_sessions (delete_session tok w) = filter (\<lambda>s. s_token s \<noteq> tok) (directus_sessions w)"
  by (simp add: delete_session_def)

lemma no_user_session_delete_session: "\<not> user_session (delete_session tok w) tok"
  by (simp add: user_session_def sessions_delete_session)

lemma logout_no_user_session:
  assumes "\<not> user_session w tok"
  shows "logout env w tok = (Inr (), w)"
  using assms by (simp add: logout_def logout_select_None_iff [symmetric])


text \<open>
  C9, as the code has it. When no session row with the token belongs to a user of the
  users table (no such session, a session of a share only, or a second logout),
  \<^verbatim>\<open>logout\<close> completes without error and changes nothing. When there is one, and
  the registry knows the user's provider and the provider's logout hook returns,
  \<^verbatim>\<open>logout\<close> deletes every session row with the token, and a second \<^verbatim>\<open>logout\<close>
  with the same token then completes without error and changes nothing.
\<close>

theorem logout_idempotent:
  "(\<not> user_session w tok \<longrightarrow> logout env w tok = (Inr (), w))
   \<and> (user_session w tok \<longrightarrow>
        (\<exists>user. logout_select w tok = Some user
           \<and> (\<forall>drv. getAuthProvider env (provider user) = Inr drv
                  \<and> driver_logout drv user = Inr () \<longrightarrow>
                logout env w tok = (Inr (), delete_session tok w)
              \<and> (\<forall>s \<in> set (directus_sessions (delete_session tok w)). s_token s \<noteq> tok)
              \<and> logout env2 (delete_session tok w) tok = (Inr (), delete_session tok w))))"
proof -
  have a: "\<not> user_session w tok \<longrightarrow> logout env w tok = (Inr (), w)"
    using logout_no_user_session by blast
  have b: "user_session w tok \<longrightarrow>
        (\<exists>user. logout_select w tok = Some user
           \<and> (\<forall>drv. getAuthProvider env (provider user) = Inr drv
                  \<and> driver_logout drv user = Inr () \<longrightarrow>
                logout env w tok = (Inr (), delete_session tok w)
              \<and> (\<forall>s \<in> set (directus_sessions (delete_session tok w)). s_token s \<noteq> tok)
              \<and> logout env2 (delete_session tok w) tok = (Inr (), delete_session tok w)))"
  proof
    assume "user_session w tok"
    then obtain user where u: "logout_select w tok = Some user"
      using logout_select_None_iff [of w tok] by (cases "logout_select w tok") auto
    have "\<forall>drv. getAuthProvider env (provider user) = Inr drv
                  \<and> driver_logout drv user = Inr () \<longrightarrow>
                logout env w tok = (Inr (), delete_session tok w)
              \<and> (\<forall>s \<in> set (directus_sessions (delete_session tok w)). s_token s \<noteq> tok)
              \<and> logout env2 (delete_session tok w) tok = (Inr (), delete_session tok w)"
      using u logout_no_user_session [OF no_user_session_delete_session, of env2 tok w]
      by (auto simp: logout_def sessions_delete_session)
    with u show "\<exists>user. logout_select w tok = Some user
           \<and> (\<forall>drv. getAuthProvider env (provider user) = Inr drv
                  \<and> driver_logout drv user = Inr () \<longrightarrow>
                logout env w tok = (Inr (), delete_session tok w)
              \<and> (\<forall>s \<in> set (directus_sessions (delete_session tok w)). s_token s \<noteq> tok)
              \<and> logout env2 (delete_session tok w) tok = (Inr (), delete_session tok w))"
      by blast
  qed
  show ?thesis using a b by blast
qed


theorem logout_idempotent_witness:
  "\<not> user_session session_world ''nope''
   \<and> logout example_env session_world ''nope'' = (Inr (), session_world)
   \<and> user_session session_world ''tok0''
   \<and> getAuthProvider example_env (provider (logout_user example_user)) = Inr example_driver
   \<and> driver_logout example_driver (logout_user example_user) = Inr ()
   \<and> logout example_env session_world ''tok0'' = (Inr (), delete_session ''tok0'' session_world)
   \<and> directus_sessions (delete_session ''tok0'' session_world) = []
   \<and> logout example_env (delete_session ''tok0'' session_world) ''tok0'' =
       (Inr (), delete_session ''tok0'' session_world)"
proof -
  have a: "\<not> user_session session_world ''nope''"
    by code_simp
  have b: "user_session session_world ''tok0''"
    by code_simp
  have sel: "logout_select session_world ''tok0'' = Some (logout_user example_user)"
    by code_simp
  have p: "getAuthProvider example_env (provider (logout_user example_user)) = Inr example_driver"
    by (simp add: example_env_def logout_user_def example_user_def)
  have q: "driver_logout example_driver (logout_user example_user) = Inr ()"
    by (simp add: example_driver_def)
  have e: "directus_sessions (delete_session ''tok0'' session_world) = []"
    by code_simp
  have c: "logout example_env session_world ''nope'' = (Inr (), session_world)"
    using logout_idempotent [of session_world "''nope''" example_env example_env] a by blast
  have d: "logout example_env session_world ''tok0'' = (Inr (), delete_session ''tok0'' session_world)
      \<and> logout example_env (delete_session ''tok0'' session_world) ''tok0'' =
          (Inr (), delete_session ''tok0'' session_world)"
    using logout_idempotent [of session_world "''tok0''" example_env example_env] b sel p q
    by auto
  show ?thesis
    using a c b p q d e by blast
qed

text \<open>
  C9 as stated fails: the token of a session that belongs to a share, not to a user,
  matches a session row, and \<^verbatim>\<open>logout\<close> completes without deleting it.
\<close>

theorem logout_keeps_share_session:
  "map s_token (directus_sessions share_world) = [''share-tok'']
   \<and> fst (logout example_env share_world ''share-tok'') = Inr ()
   \<and> directus_sessions (snd (logout example_env share_world ''share-tok'')) =
       directus_sessions share_world"
  by code_simp

section \<open>refresh: the user's status\<close>

lemma refresh_select_user_session:
  assumes s: "s \<in> set (directus_sessions w)" "s_token s = tok" "now \<le> s_expires s"
      "s_user s = Some (u_id u0)" "s_share s = None"
    and uniq: "\<forall>s' \<in> set (directus_sessions w). s_token s' = tok \<longrightarrow> s' = s"
    and u0: "u0 \<in> set (directus_users w)"
    and key: "\<forall>u \<in> set (directus_users w). u_id u = u_id u0 \<longrightarrow> u = u0"
  shows "\<exists>rec. refresh_select w now tok = Some rec \<and> row_s rec = s \<and> row_u rec = Some u0
           \<and> row_d rec = None"
proof -
  have nod: "[d \<leftarrow> directus_shares w. s_share s = Some (d_id d)] = []"
    using s(5) by simp
  have "None \<in> set (left_join [d \<leftarrow> directus_shares w. s_share s = Some (d_id d)])"
    by (simp add: nod left_join_def)
  moreover have "share_unexpired None now"
    by (simp add: share_unexpired_def)
  ultimately have "live_session w now tok"
    using s(1-3) unfolding live_session_def by blast
  then obtain rec where sel: "refresh_select w now tok = Some rec"
    using refresh_select_None_iff [of w now tok] by (cases "refresh_select w now tok") auto
  from refresh_select_SomeD [OF sel] have
    rs: "row_s rec \<in> set (directus_sessions w)" "s_token (row_s rec) = tok"
    and ru: "row_u rec \<in> set (left_join [u \<leftarrow> directus_users w. s_user (row_s rec) = Some (u_id u)])"
    and rdd: "row_d rec \<in> set (left_join [d \<leftarrow> directus_shares w. s_share (row_s rec) = Some (d_id d)])"
    unfolding in_refresh_rows by blast+
  from rs uniq have eq: "row_s rec = s" by blast
  have ne: "[u \<leftarrow> directus_users w. s_user s = Some (u_id u)] \<noteq> []"
    using u0 s(4) by (auto simp: filter_empty_conv)
  from ru have "row_u rec = Some u0"
    using ne key s(4) by (auto simp: eq left_join_def)
  moreover from rdd have "row_d rec = None"
    by (simp add: eq nod left_join_def)
  ultimately show ?thesis using sel eq by blast
qed


text \<open>
  C10. Take an unexpired session row of a user, the only row with its token, and let
  the user's status be anything. If the registry knows the user's provider and neither
  the provider's refresh hook nor the \<^verbatim>\<open>auth.jwt\<close> filter nor the signer throws, then
  \<^verbatim>\<open>refresh\<close> with that token succeeds: it returns the new refresh token and the
  user's identifier, and the session row is rotated.
\<close>

theorem refresh_ignores_status:
  assumes "tok \<noteq> []"
    and "s \<in> set (directus_sessions w)" and "s_token s = tok"
    and "knex_now rd \<le> s_expires s"
    and "s_user s = Some (u_id u0)" and "s_share s = None"
    and "\<forall>s' \<in> set (directus_sessions w). s_token s' = tok \<longrightarrow> s' = s"
    and "u0 \<in> set (directus_users w)" and "u_id u0 \<noteq> []"
    and "\<forall>u \<in> set (directus_users w). u_id u = u_id u0 \<longrightarrow> u = u0"
    and "u_status u0 = st"
    and "getAuthProvider env (u_provider u0) = Inr drv"
    and "\<forall>rec. driver_refresh drv (refresh_user rec u0) = Inr ()"
    and "\<forall>tp m. \<not> isl (emitFilter_auth_jwt env tp m)"
    and "\<forall>c. \<not> isl (jwt_sign env c)"
  shows "\<exists>r. fst (refresh env rd w tok) = Inr r \<and> refreshToken r = nanoid rd
           \<and> userId r = Some (u_id u0)
           \<and> directus_sessions (snd (refresh env rd w tok)) =
               map (\<lambda>s. if s_token s = tok
                         then s\<lparr>s_token := nanoid rd,
                                s_expires := issue_now rd + REFRESH_TOKEN_TTL env\<rparr>
                         else s) (directus_sessions w)"
proof -
  from refresh_select_user_session [OF assms(2-8) assms(10)] obtain rec where
    sel: "refresh_select w (knex_now rd) tok = Some rec" and ru: "row_u rec = Some u0"
    by blast
  have t: "truthy (record_share_id rec) \<or> truthy (record_user_id rec)"
    using ru assms(9) by (simp add: truthy_def record_user_id_def)
  have "refresh_provider env rec = Inr ()"
    using ru assms(9,12,13) by (simp add: refresh_provider_def)
  then have k: "refresh_collaborators_return env rec"
    using assms(14,15) by (simp add: refresh_collaborators_return_def)
  from refresh_returns [OF assms(1) sel t k] obtain r where
    r: "fst (refresh env rd w tok) = Inr r" by blast
  then have "refresh env rd w tok = (Inr r, snd (refresh env rd w tok))"
    by (simp add: prod_eq_iff)
  from refresh_Inr [OF this] sel have
    "refreshToken r = nanoid rd" "userId r = record_user_id rec"
    "snd (refresh env rd w tok) = refresh_last_access rec (access_now rd)
       (rotate_session tok (nanoid rd) (issue_now rd + REFRESH_TOKEN_TTL env) w)"
    by auto
  then show ?thesis
    using r ru by (simp add: record_user_id_def sessions_rotate_session)
qed

theorem refresh_ignores_status_witness:
  "example_session \<in> set (directus_sessions suspended_world)
   \<and> knex_now example_rd \<le> s_expires example_session
   \<and> suspended_user \<in> set (directus_users suspended_world)
   \<and> u_status suspended_user = ''suspended''
   \<and> getAuthProvider example_env (u_provider suspended_user) = Inr example_driver
   \<and> (\<exists>r. fst (refresh example_env example_rd suspended_world ''tok0'') = Inr r
          \<and> refreshToken r = ''tok1'' \<and> userId r = Some ''u1'')"
proof -
  have v: "directus_sessions suspended_world = [example_session]"
    "directus_users suspended_world = [suspended_user]"
    by (simp_all add: suspended_world_def session_world_def example_world_def)
  have h1: "''tok0'' \<noteq> []" by simp
  have h2: "example_session \<in> set (directus_sessions suspended_world)"
    by (simp add: v)
  have h3: "s_token example_session = ''tok0''"
    by (simp add: example_session_def)
  have h4: "knex_now example_rd \<le> s_expires example_session"
    by (simp add: example_rd_def example_session_def)
  have h5: "s_user example_session = Some (u_id suspended_user)"
    by (simp add: example_session_def suspended_user_def example_user_def)
  have h6: "s_share example_session = None"
    by (simp add: example_session_def)
  have h7: "\<forall>s' \<in> set (directus_sessions suspended_world). s_token s' = ''tok0'' \<longrightarrow> s' = example_session"
    by (simp add: v)
  have h8: "suspended_user \<in> set (directus_users suspended_world)"
    by (simp add: v)
  have h9: "u_id suspended_user \<noteq> []"
    by (simp add: suspended_user_def example_user_def)
  have h10: "\<forall>u \<in> set (directus_users suspended_world). u_id u = u_id suspended_user \<longrightarrow> u = suspended_user"
    by (simp add: v)
  have h11: "u_status suspended_user = ''suspended''"
    by (simp add: suspended_user_def)
  have h12: "getAuthProvider example_env (u_provider suspended_user) = Inr example_driver"
    by (simp add: example_env_def suspended_user_def example_user_def)
  have h13: "\<forall>rec. driver_refresh example_driver (refresh_user rec suspended_user) = Inr ()"
    by (simp add: example_driver_def)
  have h14: "\<forall>tp m. \<not> isl (emitFilter_auth_jwt example_env tp m)"
    by (simp add: example_env_def)
  have h15: "\<forall>c. \<not> isl (jwt_sign example_env c)"
    by (simp add: example_env_def example_sign_def)
  have i: "nanoid example_rd = ''tok1''" "u_id suspended_user = ''u1''"
    by (simp_all add: example_rd_def suspended_user_def example_user_def)
  show ?thesis
    using refresh_ignores_status [OF h1 h2 h3 h4 h5 h6 h7 h8 h9 h10 h11 h12 h13 h14 h15]
      h2 h4 h8 h11 h12
    by (auto simp: i)
qed

end
